theory Spec2Isabelle
  imports Complex_Main "HOL-Library.Char_ord" "HOL-Library.List_Lexorder" "HOL-Library.Multiset"
begin

section \<open>Python values\<close>

text \<open>
  The bot works on the value that \<^verbatim>\<open>response.json()\<close> returns: \<^verbatim>\<open>None\<close>, a bool, an
  int, a float, a str, a list or a dict with string keys. A \<open>char\<close> stands for a code
  point below 256. A float is given by its exact (finite) value. A dict is the list of
  its items; a lookup takes the first binding of a key.
\<close>

datatype json =
    JNull
  | JBool bool
  | JInt int
  | JFloat rat
  | JStr string
  | JArr "json list"
  | JObj "(string \<times> json) list"

text \<open>The exceptions that the code under study can raise or catch.\<close>

datatype error =
    AttributeError
  | TypeError
  | ValueError
  | FetchError string

text \<open>
  A parsed \<^verbatim>\<open>datetime\<close>, as far as \<^verbatim>\<open>sorted\<close> looks at it: a naive one (wall-clock
  microseconds) or an aware one (microseconds of the UTC instant). \<^verbatim>\<open><\<close> between a naive
  and an aware datetime raises \<^verbatim>\<open>TypeError\<close>.
\<close>

datatype pydt = Naive int | Aware int

text \<open>
  What the code takes from Python's library without the repository defining it:
  \<^verbatim>\<open>datetime.datetime.fromisoformat\<close> (\<open>None\<close> for \<^verbatim>\<open>ValueError\<close>; the accepted strings
  differ between Python versions) and \<^verbatim>\<open>str()\<close> of floats, lists and dicts.
\<close>

record pylib =
  fromisoformat :: "string \<Rightarrow> pydt option"
  str_other :: "json \<Rightarrow> string"

subsection \<open>Attribute access, iteration, truth value\<close>

text \<open>\<^verbatim>\<open>obj.get(k, dflt)\<close>: only a dict has \<^verbatim>\<open>get\<close>; the default is taken when the key is
  absent, not when its value is \<^verbatim>\<open>None\<close>.\<close>

definition py_get :: "json \<Rightarrow> string \<Rightarrow> json \<Rightarrow> error + json" where
  "py_get obj k dflt =
     (case obj of
        JObj kvs \<Rightarrow> (case map_of kvs k of Some v \<Rightarrow> Inr v | None \<Rightarrow> Inr dflt)
      | _ \<Rightarrow> Inl AttributeError)"

definition is_dict :: "json \<Rightarrow> bool" where
  "is_dict v = (case v of JObj _ \<Rightarrow> True | _ \<Rightarrow> False)"

text \<open>\<^verbatim>\<open>for x in v\<close>: a list gives its elements, a str its characters, a dict its keys;
  anything else is not iterable.\<close>

definition py_iter :: "json \<Rightarrow> error + json list" where
  "py_iter v =
     (case v of
        JArr xs \<Rightarrow> Inr xs
      | JStr s \<Rightarrow> Inr (map (\<lambda>c. JStr [c]) s)
      | JObj kvs \<Rightarrow> Inr (map JStr (remdups (map fst kvs)))
      | _ \<Rightarrow> Inl TypeError)"

text \<open>\<^verbatim>\<open>not v\<close> is the negation of this.\<close>

definition py_truthy :: "json \<Rightarrow> bool" where
  "py_truthy v =
     (case v of
        JNull \<Rightarrow> False
      | JBool b \<Rightarrow> b
      | JInt i \<Rightarrow> i \<noteq> 0
      | JFloat r \<Rightarrow> r \<noteq> 0
      | JStr s \<Rightarrow> s \<noteq> []
      | JArr xs \<Rightarrow> xs \<noteq> []
      | JObj kvs \<Rightarrow> kvs \<noteq> [])"

subsection \<open>Dictionary keys\<close>

text \<open>Lists and dicts are unhashable: using one as a key raises \<^verbatim>\<open>TypeError\<close>.\<close>

definition hashable :: "json \<Rightarrow> bool" where
  "hashable v = (case v of JArr _ \<Rightarrow> False | JObj _ \<Rightarrow> False | _ \<Rightarrow> True)"

text \<open>Bools, ints and floats are numbers; \<^verbatim>\<open>True\<close> is 1 and \<^verbatim>\<open>False\<close> is 0.\<close>

definition is_num :: "json \<Rightarrow> bool" where
  "is_num v = (case v of JBool _ \<Rightarrow> True | JInt _ \<Rightarrow> True | JFloat _ \<Rightarrow> True | _ \<Rightarrow> False)"

definition num_of :: "json \<Rightarrow> rat" where
  "num_of v =
     (case v of
        JBool b \<Rightarrow> (if b then 1 else 0)
      | JInt i \<Rightarrow> of_int i
      | JFloat r \<Rightarrow> r
      | _ \<Rightarrow> 0)"

definition is_str :: "json \<Rightarrow> bool" where
  "is_str v = (case v of JStr _ \<Rightarrow> True | _ \<Rightarrow> False)"

definition str_of :: "json \<Rightarrow> string" where
  "str_of v = (case v of JStr s \<Rightarrow> s | _ \<Rightarrow> [])"

text \<open>\<^verbatim>\<open>==\<close> on dictionary keys: numbers by value, everything else by identity of the
  value.\<close>

definition py_eq :: "json \<Rightarrow> json \<Rightarrow> bool" where
  "py_eq a b = (if is_num a \<and> is_num b then num_of a = num_of b else a = b)"

subsection \<open>The \<^verbatim>\<open>defaultdict(list)\<close> of readings\<close>

text \<open>A reading is the tuple \<^verbatim>\<open>(dt, wbgt, heat_stress)\<close>. The dict keeps its keys in
  insertion order, with the key object that was inserted first.\<close>

type_synonym reading = "json \<times> json \<times> json"

type_synonym station_dict = "(json \<times> reading list) list"

text \<open>\<^verbatim>\<open>k in d\<close>\<close>

fun dict_mem :: "station_dict \<Rightarrow> json \<Rightarrow> bool" where
  "dict_mem [] k = False"
| "dict_mem ((k', rs) # d) k = (if py_eq k' k then True else dict_mem d k)"

text \<open>\<^verbatim>\<open>d[k]\<close> for a key that is in \<open>d\<close>; the empty list stands for the fresh list that
  the \<^verbatim>\<open>defaultdict\<close> makes for a new key.\<close>

fun dict_get :: "station_dict \<Rightarrow> json \<Rightarrow> reading list" where
  "dict_get [] k = []"
| "dict_get ((k', rs) # d) k = (if py_eq k' k then rs else dict_get d k)"

text \<open>\<^verbatim>\<open>d[k].append(r)\<close> for a hashable \<open>k\<close>\<close>

fun dict_append :: "station_dict \<Rightarrow> json \<Rightarrow> reading \<Rightarrow> station_dict" where
  "dict_append [] k r = [(k, [r])]"
| "dict_append ((k', rs) # d) k r =
     (if py_eq k' k then (k', rs @ [r]) # d else (k', rs) # dict_append d k r)"

section \<open>Grouping: \<^verbatim>\<open>group_wbgt_by_station\<close>\<close>

text \<open>\<^verbatim>\<open>station.get("townCenter", station.get("name", station.get("id")))\<close>\<close>

definition resolve_town :: "json \<Rightarrow> error + json" where
  "resolve_town station =
     (case py_get station ''id'' JNull of
        Inl e \<Rightarrow> Inl e
      | Inr i \<Rightarrow>
          (case py_get station ''name'' i of
             Inl e \<Rightarrow> Inl e
           | Inr n \<Rightarrow> py_get station ''townCenter'' n))"

text \<open>The body of the inner loop, for one reading \<open>rd\<close> of a record with datetime \<open>dt\<close>.\<close>

definition add_reading :: "json \<Rightarrow> station_dict \<Rightarrow> json \<Rightarrow> error + station_dict" where
  "add_reading dt sd rd =
     (case py_get rd ''station'' (JObj []) of
        Inl e \<Rightarrow> Inl e
      | Inr station \<Rightarrow>
     (case resolve_town station of
        Inl e \<Rightarrow> Inl e
      | Inr town \<Rightarrow>
     (case py_get rd ''wbgt'' JNull of
        Inl e \<Rightarrow> Inl e
      | Inr wbgt \<Rightarrow>
     (case py_get rd ''heatStress'' JNull of
        Inl e \<Rightarrow> Inl e
      | Inr heat_stress \<Rightarrow>
          (if hashable town then Inr (dict_append sd town (dt, wbgt, heat_stress))
           else Inl TypeError)))))"

text \<open>\<^verbatim>\<open>for rd in readings\<close>\<close>

fun add_readings :: "json \<Rightarrow> station_dict \<Rightarrow> json list \<Rightarrow> error + station_dict" where
  "add_readings dt sd [] = Inr sd"
| "add_readings dt sd (rd # rds) =
     (case add_reading dt sd rd of
        Inl e \<Rightarrow> Inl e
      | Inr sd' \<Rightarrow> add_readings dt sd' rds)"

text \<open>The body of the outer loop, for one record.\<close>

definition add_record :: "station_dict \<Rightarrow> json \<Rightarrow> error + station_dict" where
  "add_record sd record =
     (case py_get record ''datetime'' JNull of
        Inl e \<Rightarrow> Inl e
      | Inr dt \<Rightarrow>
     (case py_get record ''item'' (JObj []) of
        Inl e \<Rightarrow> Inl e
      | Inr item \<Rightarrow>
     (case py_get item ''readings'' (JArr []) of
        Inl e \<Rightarrow> Inl e
      | Inr readings \<Rightarrow>
     (case py_iter readings of
        Inl e \<Rightarrow> Inl e
      | Inr rds \<Rightarrow> add_readings dt sd rds))))"

text \<open>\<^verbatim>\<open>for record in records\<close>\<close>

fun add_records :: "station_dict \<Rightarrow> json list \<Rightarrow> error + station_dict" where
  "add_records sd [] = Inr sd"
| "add_records sd (r # rs) =
     (case add_record sd r of
        Inl e \<Rightarrow> Inl e
      | Inr sd' \<Rightarrow> add_records sd' rs)"

text \<open>\<^verbatim>\<open>data.get("data", {}).get("records", [])\<close>\<close>

definition get_records :: "json \<Rightarrow> error + json" where
  "get_records data =
     (case py_get data ''data'' (JObj []) of
        Inl e \<Rightarrow> Inl e
      | Inr d \<Rightarrow> py_get d ''records'' (JArr []))"

definition group_wbgt_by_station :: "json \<Rightarrow> error + station_dict" where
  "group_wbgt_by_station data =
     (case get_records data of
        Inl e \<Rightarrow> Inl e
      | Inr records \<Rightarrow>
     (case py_iter records of
        Inl e \<Rightarrow> Inl e
      | Inr recs \<Rightarrow> add_records [] recs))"

section \<open>Formatting: \<^verbatim>\<open>format_station_data\<close>\<close>

subsection \<open>\<^verbatim>\<open>str()\<close> inside an f-string\<close>

definition digit_char :: "nat \<Rightarrow> char" where
  "digit_char n = char_of (48 + n)"

fun digits_of :: "nat \<Rightarrow> string" where
  "digits_of n = (if n < 10 then [digit_char n] else digits_of (n div 10) @ [digit_char (n mod 10)])"

declare digits_of.simps [simp del]

definition str_int :: "int \<Rightarrow> string" where
  "str_int i = (if i < 0 then CHR ''-'' # digits_of (nat (- i)) else digits_of (nat i))"

definition py_str :: "pylib \<Rightarrow> json \<Rightarrow> string" where
  "py_str lib v =
     (case v of
        JNull \<Rightarrow> ''None''
      | JBool b \<Rightarrow> (if b then ''True'' else ''False'')
      | JInt i \<Rightarrow> str_int i
      | JStr s \<Rightarrow> s
      | _ \<Rightarrow> str_other lib v)"

text \<open>\<^verbatim>\<open>"\n".join(lines)\<close>\<close>

fun join_nl :: "string list \<Rightarrow> string" where
  "join_nl [] = []"
| "join_nl [l] = l"
| "join_nl (l # m # ls) = l @ [CHR 0x0A] @ join_nl (m # ls)"

subsection \<open>\<^verbatim>\<open>sorted(readings, key=...)\<close>\<close>

text \<open>\<^verbatim>\<open>s.replace("Z", "+00:00")\<close>: every \<^verbatim>\<open>Z\<close> of the string is replaced.\<close>

fun replace_Z :: "string \<Rightarrow> string" where
  "replace_Z [] = []"
| "replace_Z (c # cs) = (if c = CHR ''Z'' then ''+00:00'' @ replace_Z cs else c # replace_Z cs)"

text \<open>The key function \<^verbatim>\<open>lambda x: datetime.datetime.fromisoformat(x[0].replace("Z", "+00:00"))\<close>:
  only a str has \<^verbatim>\<open>replace\<close>.\<close>

definition ts_key :: "pylib \<Rightarrow> reading \<Rightarrow> error + pydt" where
  "ts_key lib r =
     (case fst r of
        JStr s \<Rightarrow>
          (case fromisoformat lib (replace_Z s) of
             None \<Rightarrow> Inl ValueError
           | Some t \<Rightarrow> Inr t)
      | _ \<Rightarrow> Inl AttributeError)"

text \<open>\<^verbatim>\<open>sorted\<close> computes the key of every element, in order, before it compares any.\<close>

fun ts_keys :: "pylib \<Rightarrow> reading list \<Rightarrow> error + pydt list" where
  "ts_keys lib [] = Inr []"
| "ts_keys lib (r # rs) =
     (case ts_key lib r of
        Inl e \<Rightarrow> Inl e
      | Inr t \<Rightarrow> (case ts_keys lib rs of Inl e \<Rightarrow> Inl e | Inr ts \<Rightarrow> Inr (t # ts)))"

definition is_naive :: "pydt \<Rightarrow> bool" where
  "is_naive t = (case t of Naive _ \<Rightarrow> True | Aware _ \<Rightarrow> False)"

definition instant :: "pydt \<Rightarrow> int" where
  "instant t = (case t of Naive n \<Rightarrow> n | Aware n \<Rightarrow> n)"

text \<open>A list of datetimes can be sorted when no naive one has to be compared with an
  aware one. A comparison sort of two or more elements has to relate every element to the
  others, so a mixed list raises.\<close>

definition comparable :: "pydt list \<Rightarrow> bool" where
  "comparable ts = (list_all is_naive ts \<or> list_all (\<lambda>t. \<not> is_naive t) ts)"

text \<open>\<^verbatim>\<open>sorted\<close> is stable, as \<open>sort_key\<close> is.\<close>

definition sorted_readings :: "pylib \<Rightarrow> reading list \<Rightarrow> error + reading list" where
  "sorted_readings lib rs =
     (case ts_keys lib rs of
        Inl e \<Rightarrow> Inl e
      | Inr ts \<Rightarrow>
          (if comparable ts then Inr (map snd (sort_key (\<lambda>p. instant (fst p)) (zip ts rs)))
           else Inl TypeError))"

subsection \<open>One station\<close>

text \<open>\<^verbatim>\<open>f"  {dt}  WBGT: {wbgt}  HeatStress: {heat_stress}"\<close>\<close>

definition format_line :: "pylib \<Rightarrow> reading \<Rightarrow> string" where
  "format_line lib r =
     (case r of (dt, wbgt, heat_stress) \<Rightarrow>
        ''  '' @ py_str lib dt @ ''  WBGT: '' @ py_str lib wbgt @ ''  HeatStress: '' @ py_str lib heat_stress)"

definition format_station_data :: "pylib \<Rightarrow> json \<Rightarrow> reading list \<Rightarrow> error + string" where
  "format_station_data lib station readings =
     (case sorted_readings lib readings of
        Inl e \<Rightarrow> Inl e
      | Inr readings_sorted \<Rightarrow>
          Inr (join_nl ((''Station: '' @ py_str lib station) # map (format_line lib) readings_sorted)))"

subsection \<open>All stations: \<^verbatim>\<open>format_wbgt_by_station_split\<close>\<close>

text \<open>\<^verbatim>\<open>sorted(station_data.keys())\<close>: strs are ordered by code points, numbers by value;
  \<^verbatim>\<open>None\<close> is ordered with nothing, and a str with no number. One key alone is never
  compared.\<close>

definition sorted_keys :: "json list \<Rightarrow> error + json list" where
  "sorted_keys ks =
     (if length ks \<le> 1 then Inr ks
      else if list_all is_str ks then Inr (sort_key str_of ks)
      else if list_all is_num ks then Inr (sort_key num_of ks)
      else Inl TypeError)"

text \<open>The loop \<^verbatim>\<open>for station in sorted(...)\<close> that renders one block per station; the
  block is built as \<^verbatim>\<open>format_station_data\<close> builds it.\<close>

fun format_blocks :: "pylib \<Rightarrow> station_dict \<Rightarrow> json list \<Rightarrow> error + string list" where
  "format_blocks lib sd [] = Inr []"
| "format_blocks lib sd (station # stations) =
     (case format_station_data lib station (dict_get sd station) of
        Inl e \<Rightarrow> Inl e
      | Inr msg \<Rightarrow>
          (case format_blocks lib sd stations of
             Inl e \<Rightarrow> Inl e
           | Inr msgs \<Rightarrow> Inr (msg # msgs)))"

definition format_wbgt_by_station_split :: "pylib \<Rightarrow> json \<Rightarrow> error + string list" where
  "format_wbgt_by_station_split lib data =
     (case get_records data of
        Inl e \<Rightarrow> Inl e
      | Inr records \<Rightarrow>
          (if \<not> py_truthy records then Inr [''No records found.'']
           else
             (case py_iter records of
                Inl e \<Rightarrow> Inl e
              | Inr recs \<Rightarrow>
             (case add_records [] recs of
                Inl e \<Rightarrow> Inl e
              | Inr station_data \<Rightarrow>
             (case sorted_keys (map fst station_data) of
                Inl e \<Rightarrow> Inl e
              | Inr stations \<Rightarrow> format_blocks lib station_data stations)))))"

section \<open>The date check of \<^verbatim>\<open>handle_date\<close>\<close>

text \<open>\<^verbatim>\<open>str.strip()\<close>: the white space among the code points below 256.\<close>

definition py_isspace :: "char \<Rightarrow> bool" where
  "py_isspace c = ((of_char c :: nat) \<in> set [9, 10, 11, 12, 13, 28, 29, 30, 31, 32, 133, 160])"

definition py_strip :: "string \<Rightarrow> string" where
  "py_strip s = rev (dropWhile py_isspace (rev (dropWhile py_isspace s)))"

text \<open>
  \<^verbatim>\<open>datetime.datetime.strptime(s, "%Y-%m-%d")\<close>. The library matches the regular expression
  \<^verbatim>\<open>(\d\d\d\d)-(1[0-2]|0[1-9]|[1-9])-(3[01]|[12]\d|0[1-9]|[1-9]| [1-9])\<close> at the start of
  \<open>s\<close>, raises \<^verbatim>\<open>ValueError\<close> when it does not match or when text remains after the
  match, and then builds the date, which raises \<^verbatim>\<open>ValueError\<close> for year 0 and for a
  day that the month does not have.
\<close>

definition is_digit :: "char \<Rightarrow> bool" where
  "is_digit c = (48 \<le> (of_char c :: nat) \<and> (of_char c :: nat) \<le> 57)"

definition digit_val :: "char \<Rightarrow> nat" where
  "digit_val c = of_char c - 48"

definition is_digit19 :: "char \<Rightarrow> bool" where
  "is_digit19 c = (is_digit c \<and> c \<noteq> CHR ''0'')"

text \<open>The month group \<^verbatim>\<open>1[0-2]|0[1-9]|[1-9]\<close>, with the text after it. A \<^verbatim>\<open>-\<close> has to
  follow, so where a two-digit alternative matches the one-digit one cannot.\<close>

fun match_m :: "string \<Rightarrow> (nat \<times> string) option" where
  "match_m (a # b # cs) =
     (if a = CHR ''1'' \<and> (b = CHR ''0'' \<or> b = CHR ''1'' \<or> b = CHR ''2'') then Some (10 + digit_val b, cs)
      else if a = CHR ''0'' \<and> is_digit19 b then Some (digit_val b, cs)
      else if is_digit19 a then Some (digit_val a, b # cs)
      else None)"
| "match_m [a] = (if is_digit19 a then Some (digit_val a, []) else None)"
| "match_m [] = None"

text \<open>The day group \<^verbatim>\<open>3[01]|[12]\d|0[1-9]|[1-9]| [1-9]\<close>: the first alternative that
  matches is taken.\<close>

fun match_d :: "string \<Rightarrow> (nat \<times> string) option" where
  "match_d (a # b # cs) =
     (if a = CHR ''3'' \<and> (b = CHR ''0'' \<or> b = CHR ''1'') then Some (30 + digit_val b, cs)
      else if (a = CHR ''1'' \<or> a = CHR ''2'') \<and> is_digit b then Some (10 * digit_val a + digit_val b, cs)
      else if a = CHR ''0'' \<and> is_digit19 b then Some (digit_val b, cs)
      else if is_digit19 a then Some (digit_val a, b # cs)
      else if a = CHR '' '' \<and> is_digit19 b then Some (digit_val b, cs)
      else None)"
| "match_d [a] = (if is_digit19 a then Some (digit_val a, []) else None)"
| "match_d [] = None"

definition is_leap :: "nat \<Rightarrow> bool" where
  "is_leap y = (y mod 4 = 0 \<and> (y mod 100 \<noteq> 0 \<or> y mod 400 = 0))"

definition days_in_month :: "nat \<Rightarrow> nat \<Rightarrow> nat" where
  "days_in_month y m =
     (if m = 2 then (if is_leap y then 29 else 28)
      else if m = 4 \<or> m = 6 \<or> m = 9 \<or> m = 11 then 30
      else 31)"

text \<open>\<^verbatim>\<open>datetime.date(y, m, d)\<close> exists.\<close>

definition valid_date :: "nat \<Rightarrow> nat \<Rightarrow> nat \<Rightarrow> bool" where
  "valid_date y m d =
     (1 \<le> y \<and> y \<le> 9999 \<and> 1 \<le> m \<and> m \<le> 12 \<and> 1 \<le> d \<and> d \<le> days_in_month y m)"

definition strptime_ymd :: "string \<Rightarrow> (nat \<times> nat \<times> nat) option" where
  "strptime_ymd s =
     (case s of
        y1 # y2 # y3 # y4 # dash # rest \<Rightarrow>
          (if is_digit y1 \<and> is_digit y2 \<and> is_digit y3 \<and> is_digit y4 \<and> dash = CHR ''-'' then
             (case match_m rest of
                Some (m, dash' # rest') \<Rightarrow>
                  (if dash' = CHR ''-'' then
                     (case match_d rest' of
                        Some (d, []) \<Rightarrow>
                          (let y = 1000 * digit_val y1 + 100 * digit_val y2 + 10 * digit_val y3 + digit_val y4
                           in if valid_date y m d then Some (y, m, d) else None)
                      | _ \<Rightarrow> None)
                   else None)
              | _ \<Rightarrow> None)
           else None)
      | _ \<Rightarrow> None)"

text \<open>The \<^verbatim>\<open>try\<close> block at the head of \<^verbatim>\<open>handle_date\<close>: true when no \<^verbatim>\<open>ValueError\<close> is
  raised.\<close>

definition date_input_ok :: "pylib \<Rightarrow> string \<Rightarrow> bool" where
  "date_input_ok lib date_input =
     (if CHR ''T'' \<in> set date_input then fromisoformat lib date_input \<noteq> None
      else strptime_ymd date_input \<noteq> None)"

section \<open>The handlers\<close>

text \<open>What a handler does to the outside, in order: the request that \<^verbatim>\<open>fetch_wbgt\<close>
  sends with its \<^verbatim>\<open>date\<close> parameter, and the replies. \<open>ReplyError e\<close> is the reply
  \<^verbatim>\<open>f"Error fetching WBGT data: {e}"\<close>; \<open>ReplyChoices\<close> carries the text and the
  buttons of the inline keyboard.\<close>

datatype effect =
    Fetch string
  | ReplyText string
  | ReplyChoices string "json list"
  | ReplyError error

definition invalid_date_msg :: string where
  "invalid_date_msg = ''Invalid date format. Use YYYY-MM-DD or YYYY-MM-DDTHH:MM:SS''"

definition not_found_msg :: string where
  "not_found_msg = ''Station data not found. Please send the date again.''"

text \<open>\<^verbatim>\<open>context.user_data\<close> of one user: the entry \<^verbatim>\<open>"station_data"\<close>, when it is set.\<close>

record user_data =
  station_data :: "station_dict option"

text \<open>\<^verbatim>\<open>handle_date\<close> of \<^verbatim>\<open>wbgt_bot.py\<close> (every block is sent as a message). The answer of
  the network to \<^verbatim>\<open>fetch_wbgt\<close> is the parameter \<open>fetch_wbgt\<close>.\<close>

definition handle_date_split :: "pylib \<Rightarrow> (string \<Rightarrow> error + json) \<Rightarrow> string \<Rightarrow> effect list" where
  "handle_date_split lib fetch_wbgt text =
     (let date_input = py_strip text in
      if \<not> date_input_ok lib date_input then [ReplyText invalid_date_msg]
      else Fetch date_input #
        (case fetch_wbgt date_input of
           Inl e \<Rightarrow> [ReplyError e]
         | Inr data \<Rightarrow>
             (case format_wbgt_by_station_split lib data of
                Inl e \<Rightarrow> [ReplyError e]
              | Inr messages \<Rightarrow> map ReplyText messages)))"

text \<open>\<^verbatim>\<open>handle_date\<close> with the station keyboard. The result is stored before the keys are
  sorted for the keyboard.\<close>

definition handle_date :: "pylib \<Rightarrow> (string \<Rightarrow> error + json) \<Rightarrow> string \<Rightarrow> user_data \<Rightarrow> user_data \<times> effect list" where
  "handle_date lib fetch_wbgt text ud =
     (let date_input = py_strip text in
      if \<not> date_input_ok lib date_input then (ud, [ReplyText invalid_date_msg])
      else
        (case fetch_wbgt date_input of
           Inl e \<Rightarrow> (ud, [Fetch date_input, ReplyError e])
         | Inr data \<Rightarrow>
        (case group_wbgt_by_station data of
           Inl e \<Rightarrow> (ud, [Fetch date_input, ReplyError e])
         | Inr sd \<Rightarrow>
             (if sd = [] then (ud, [Fetch date_input, ReplyText ''No records found.''])
              else
                (case sorted_keys (map fst sd) of
                   Inl e \<Rightarrow> (ud\<lparr>station_data := Some sd\<rparr>, [Fetch date_input, ReplyError e])
                 | Inr stations \<Rightarrow>
                     (ud\<lparr>station_data := Some sd\<rparr>,
                      [Fetch date_input, ReplyChoices ''Choose a station:'' stations]))))))"


text \<open>\<^verbatim>\<open>button_handler\<close> for the callback data \<open>station\<close> (a str). Nothing catches an
  exception of \<^verbatim>\<open>format_station_data\<close> here: it is the result \<open>Inl\<close>.\<close>

definition button_handler :: "pylib \<Rightarrow> string \<Rightarrow> user_data \<Rightarrow> error + user_data \<times> effect list" where
  "button_handler lib station ud =
     (let sd = (case station_data ud of None \<Rightarrow> [] | Some d \<Rightarrow> d) in
      if dict_mem sd (JStr station) then
        (case format_station_data lib (JStr station) (dict_get sd (JStr station)) of
           Inl e \<Rightarrow> Inl e
         | Inr text \<Rightarrow> Inr (ud, [ReplyText text]))
      else Inr (ud, [ReplyText not_found_msg]))"

section \<open>Auxiliary notions for the properties\<close>

text \<open>The fallback order town centre, name, id, with "present" read as "the key is in
  the dict": the value of the first of the three keys that the station dict has, and
  \<^verbatim>\<open>None\<close> when it has none of them.\<close>

definition fallback_chain :: "(string \<times> json) list \<Rightarrow> json" where
  "fallback_chain kvs =
     (case map_of kvs ''townCenter'' of
        Some v \<Rightarrow> v
      | None \<Rightarrow>
          (case map_of kvs ''name'' of
             Some v \<Rightarrow> v
           | None \<Rightarrow> (case map_of kvs ''id'' of Some v \<Rightarrow> v | None \<Rightarrow> JNull)))"

text \<open>The entry that one reading contributes to the dict: its key and its tuple.\<close>

definition reading_entry :: "json \<Rightarrow> json \<Rightarrow> error + json \<times> reading" where
  "reading_entry dt rd =
     (case py_get rd ''station'' (JObj []) of
        Inl e \<Rightarrow> Inl e
      | Inr station \<Rightarrow>
     (case resolve_town station of
        Inl e \<Rightarrow> Inl e
      | Inr town \<Rightarrow>
     (case py_get rd ''wbgt'' JNull of
        Inl e \<Rightarrow> Inl e
      | Inr wbgt \<Rightarrow>
     (case py_get rd ''heatStress'' JNull of
        Inl e \<Rightarrow> Inl e
      | Inr heat_stress \<Rightarrow>
          (if hashable town then Inr (town, (dt, wbgt, heat_stress)) else Inl TypeError)))))"

fun reading_entries :: "json \<Rightarrow> json list \<Rightarrow> error + (json \<times> reading) list" where
  "reading_entries dt [] = Inr []"
| "reading_entries dt (rd # rds) =
     (case reading_entry dt rd of
        Inl e \<Rightarrow> Inl e
      | Inr p \<Rightarrow> (case reading_entries dt rds of Inl e \<Rightarrow> Inl e | Inr ps \<Rightarrow> Inr (p # ps)))"

text \<open>The entries of one record, in the order of its readings.\<close>

definition record_entries :: "json \<Rightarrow> error + (json \<times> reading) list" where
  "record_entries record =
     (case py_get record ''datetime'' JNull of
        Inl e \<Rightarrow> Inl e
      | Inr dt \<Rightarrow>
     (case py_get record ''item'' (JObj []) of
        Inl e \<Rightarrow> Inl e
      | Inr item \<Rightarrow>
     (case py_get item ''readings'' (JArr []) of
        Inl e \<Rightarrow> Inl e
      | Inr readings \<Rightarrow>
     (case py_iter readings of
        Inl e \<Rightarrow> Inl e
      | Inr rds \<Rightarrow> reading_entries dt rds))))"

definition is_ok :: "'e + 'a \<Rightarrow> bool" where
  "is_ok x = (case x of Inl _ \<Rightarrow> False | Inr _ \<Rightarrow> True)"

definition entries_of :: "json \<Rightarrow> (json \<times> reading) list" where
  "entries_of record = (case record_entries record of Inl _ \<Rightarrow> [] | Inr ps \<Rightarrow> ps)"

text \<open>The value that \<^verbatim>\<open>rd.get(k)\<close> gives for a reading with the items \<open>flds\<close>.\<close>

definition get_or_none :: "(string \<times> json) list \<Rightarrow> string \<Rightarrow> json" where
  "get_or_none flds k = (case map_of flds k of Some v \<Rightarrow> v | None \<Rightarrow> JNull)"

text \<open>One entry put into the dict.\<close>

definition put_entry :: "station_dict \<Rightarrow> json \<times> reading \<Rightarrow> station_dict" where
  "put_entry sd p = dict_append sd (fst p) (snd p)"

text \<open>The readings among a list of entries whose key equals \<open>k\<close>.\<close>

definition readings_for :: "json \<Rightarrow> (json \<times> reading) list \<Rightarrow> reading list" where
  "readings_for k ps = map snd (filter (\<lambda>p. py_eq (fst p) k) ps)"

text \<open>The instant by which \<^verbatim>\<open>sorted\<close> orders a reading whose timestamp parses.\<close>

definition reading_instant :: "pylib \<Rightarrow> reading \<Rightarrow> int" where
  "reading_instant lib r = (case ts_key lib r of Inl _ \<Rightarrow> 0 | Inr t \<Rightarrow> instant t)"

definition reading_dt :: "pylib \<Rightarrow> reading \<Rightarrow> pydt" where
  "reading_dt lib r = (case ts_key lib r of Inl _ \<Rightarrow> Naive 0 | Inr t \<Rightarrow> t)"

text \<open>A date written \<^verbatim>\<open>YYYY-MM-DD\<close> with leading zeros.\<close>

definition pad2 :: "nat \<Rightarrow> string" where
  "pad2 n = [digit_char (n div 10 mod 10), digit_char (n mod 10)]"

definition pad4 :: "nat \<Rightarrow> string" where
  "pad4 n = [digit_char (n div 1000 mod 10), digit_char (n div 100 mod 10),
             digit_char (n div 10 mod 10), digit_char (n mod 10)]"

definition ymd_string :: "nat \<Rightarrow> nat \<Rightarrow> nat \<Rightarrow> string" where
  "ymd_string y m d = pad4 y @ ''-'' @ pad2 m @ ''-'' @ pad2 d"

subsection \<open>A concrete library for examples\<close>

text \<open>
  \<^verbatim>\<open>fromisoformat\<close> on the strings \<^verbatim>\<open>YYYY-MM-DDTHH:MM:SS\<close> with an optional offset
  \<^verbatim>\<open>+HH:MM\<close> or \<^verbatim>\<open>-HH:MM\<close>, which every Python from 3.7 on parses alike. Other strings
  are rejected here, though a given Python version may accept some of them; the general
  theorems below hold for every \<open>pylib\<close>, and this one serves the examples only.
\<close>

definition num2 :: "char \<Rightarrow> char \<Rightarrow> nat option" where
  "num2 a b = (if is_digit a \<and> is_digit b then Some (10 * digit_val a + digit_val b) else None)"

definition days_before_month :: "nat \<Rightarrow> nat \<Rightarrow> nat" where
  "days_before_month y m = sum_list (map (days_in_month y) [1..<m])"

text \<open>\<^verbatim>\<open>date.toordinal()\<close>\<close>

definition ordinal :: "nat \<Rightarrow> nat \<Rightarrow> nat \<Rightarrow> nat" where
  "ordinal y m d =
     365 * (y - 1) + (y - 1) div 4 - (y - 1) div 100 + (y - 1) div 400 + days_before_month y m + d"

definition parse_date10 :: "string \<Rightarrow> nat option" where
  "parse_date10 s =
     (case s of
        [y1, y2, y3, y4, c1, m1, m2, c2, d1, d2] \<Rightarrow>
          (case (num2 y1 y2, num2 y3 y4, num2 m1 m2, num2 d1 d2) of
             (Some yh, Some yl, Some m, Some d) \<Rightarrow>
               (if c1 = CHR ''-'' \<and> c2 = CHR ''-'' \<and> valid_date (100 * yh + yl) m d
                then Some (ordinal (100 * yh + yl) m d) else None)
           | _ \<Rightarrow> None)
      | _ \<Rightarrow> None)"

definition parse_time8 :: "string \<Rightarrow> nat option" where
  "parse_time8 s =
     (case s of
        [h1, h2, c1, m1, m2, c2, s1, s2] \<Rightarrow>
          (case (num2 h1 h2, num2 m1 m2, num2 s1 s2) of
             (Some h, Some m, Some sec) \<Rightarrow>
               (if c1 = CHR '':'' \<and> c2 = CHR '':'' \<and> h < 24 \<and> m < 60 \<and> sec < 60
                then Some (3600 * h + 60 * m + sec) else None)
           | _ \<Rightarrow> None)
      | _ \<Rightarrow> None)"

definition parse_offset6 :: "string \<Rightarrow> int option" where
  "parse_offset6 s =
     (case s of
        [sg, h1, h2, c, m1, m2] \<Rightarrow>
          (case (num2 h1 h2, num2 m1 m2) of
             (Some h, Some m) \<Rightarrow>
               (if c = CHR '':'' \<and> h < 24 \<and> m < 60 \<and> (sg = CHR ''+'' \<or> sg = CHR ''-'')
                then Some ((if sg = CHR ''-'' then - 1 else 1) * int (3600 * h + 60 * m))
                else None)
           | _ \<Rightarrow> None)
      | _ \<Rightarrow> None)"

definition fromisoformat_core :: "string \<Rightarrow> pydt option" where
  "fromisoformat_core s =
     (case parse_date10 (take 10 s) of
        None \<Rightarrow> None
      | Some days \<Rightarrow>
          (if take 1 (drop 10 s) \<noteq> ''T'' then None
           else
             (case parse_time8 (take 8 (drop 11 s)) of
                None \<Rightarrow> None
              | Some secs \<Rightarrow>
                  (let local = (int days * 86400 + int secs) * 1000000 in
                   if drop 19 s = [] then Some (Naive local)
                   else
                     (case parse_offset6 (drop 19 s) of
                        None \<Rightarrow> None
                      | Some off \<Rightarrow> Some (Aware (local - off * 1000000)))))))"

text \<open>A timestamp written \<^verbatim>\<open>YYYY-MM-DDTHH:MM:SS\<close>, with an offset \<^verbatim>\<open>+HH:MM\<close> or
  \<^verbatim>\<open>-HH:MM\<close> when \<open>tz\<close> gives one (its sign, hours and minutes).\<close>

definition hms_string :: "nat \<Rightarrow> nat \<Rightarrow> nat \<Rightarrow> string" where
  "hms_string h mi sec = pad2 h @ '':'' @ pad2 mi @ '':'' @ pad2 sec"

definition offset_string :: "bool \<Rightarrow> nat \<Rightarrow> nat \<Rightarrow> string" where
  "offset_string neg oh om = (if neg then ''-'' else ''+'') @ pad2 oh @ '':'' @ pad2 om"

definition iso_string ::
  "nat \<Rightarrow> nat \<Rightarrow> nat \<Rightarrow> nat \<Rightarrow> nat \<Rightarrow> nat \<Rightarrow> (bool \<times> nat \<times> nat) option \<Rightarrow> string" where
  "iso_string y m d h mi sec tz =
     ymd_string y m d @ ''T'' @ hms_string h mi sec @
     (case tz of None \<Rightarrow> [] | Some (neg, oh, om) \<Rightarrow> offset_string neg oh om)"

definition valid_time :: "nat \<Rightarrow> nat \<Rightarrow> nat \<Rightarrow> bool" where
  "valid_time h mi sec = (h < 24 \<and> mi < 60 \<and> sec < 60)"

definition valid_offset :: "(bool \<times> nat \<times> nat) option \<Rightarrow> bool" where
  "valid_offset tz = (case tz of None \<Rightarrow> True | Some (neg, oh, om) \<Rightarrow> oh < 24 \<and> om < 60)"

text \<open>The library parses at least what \<open>fromisoformat_core\<close> parses, as
  \<^verbatim>\<open>datetime.fromisoformat\<close> of every Python from 3.7 on does.\<close>

definition extends_core :: "pylib \<Rightarrow> bool" where
  "extends_core lib = (\<forall>s. fromisoformat_core s \<noteq> None \<longrightarrow> fromisoformat lib s \<noteq> None)"

text \<open>A record with one reading, and the body of a response with the given records.\<close>

definition example_record :: "string \<Rightarrow> string \<Rightarrow> int \<Rightarrow> json" where
  "example_record dt name wbgt =
     JObj [(''datetime'', JStr dt),
           (''item'', JObj [(''readings'',
              JArr [JObj [(''station'', JObj [(''name'', JStr name)]),
                          (''wbgt'', JInt wbgt),
                          (''heatStress'', JStr ''Moderate'')]])])]"

definition body_of_records :: "json list \<Rightarrow> json" where
  "body_of_records records = JObj [(''data'', JObj [(''records'', JArr records)])]"

text \<open>A network that answers a date with one reading of that day: of Changi for
  2024-06-01, of Sentosa for any other date.\<close>

definition example_fetch :: "string \<Rightarrow> error + json" where
  "example_fetch d =
     Inr (body_of_records [example_record (d @ ''T08:00:00Z'')
                          (if d = ''2024-06-01'' then ''Changi'' else ''Sentosa'') 28])"

text \<open>The examples contain no float, list or dict to render.\<close>

definition py_core :: pylib where
  "py_core = \<lparr>fromisoformat = fromisoformat_core, str_other = (\<lambda>v. [])\<rparr>"

section \<open>Lemmas\<close>


subsection \<open>Key equality\<close>

lemma py_eq_refl: "py_eq a a"
  by (simp add: py_eq_def)

lemma py_eq_sym: "py_eq a b \<Longrightarrow> py_eq b a"
  by (auto simp: py_eq_def split: if_splits)

lemma py_eq_trans: "py_eq a b \<Longrightarrow> py_eq b c \<Longrightarrow> py_eq a c"
  by (auto simp: py_eq_def split: if_splits)

lemma py_eq_cong: "py_eq a b \<Longrightarrow> py_eq a c = py_eq b c"
  by (blast intro: py_eq_sym py_eq_trans)


lemma py_eq_JNull: "py_eq k JNull = (k = JNull)"
  by (auto simp: py_eq_def is_num_def)

subsection \<open>The dict\<close>

lemma dict_get_append:
  "dict_get (dict_append sd t r) k = (if py_eq t k then dict_get sd k @ [r] else dict_get sd k)"
proof (induction sd)
  case Nil
  show ?case by simp
next
  case (Cons e sd)
  obtain k' rs where e: "e = (k', rs)" by (cases e)
  show ?case
  proof (cases "py_eq k' t")
    case True
    then have "py_eq k' k = py_eq t k" by (rule py_eq_cong)
    with True e show ?thesis by simp
  next
    case False
    have "py_eq k' k \<Longrightarrow> \<not> py_eq t k"
      using False by (blast intro: py_eq_sym py_eq_trans)
    with False e Cons.IH show ?thesis by auto
  qed
qed

lemma dict_mem_append: "dict_mem (dict_append sd t r) k = (py_eq t k \<or> dict_mem sd k)"
proof (induction sd)
  case Nil
  show ?case by simp
next
  case (Cons e sd)
  obtain k' rs where e: "e = (k', rs)" by (cases e)
  show ?case
  proof (cases "py_eq k' t")
    case True
    then have "py_eq k' k = py_eq t k" by (rule py_eq_cong)
    with True e show ?thesis by auto
  next
    case False
    with e Cons.IH show ?thesis by auto
  qed
qed

lemma dict_get_foldl:
  "dict_get (foldl put_entry sd ps) k = dict_get sd k @ readings_for k ps"
  by (induction ps arbitrary: sd) (simp_all add: readings_for_def put_entry_def dict_get_append)

lemma dict_mem_foldl:
  "dict_mem (foldl put_entry sd ps) k = (dict_mem sd k \<or> (\<exists>p\<in>set ps. py_eq (fst p) k))"
  by (induction ps arbitrary: sd) (auto simp: put_entry_def dict_mem_append)

subsection \<open>The loops as a fold over entries\<close>

lemma add_reading_entry:
  "add_reading dt sd rd =
     (case reading_entry dt rd of Inl e \<Rightarrow> Inl e | Inr p \<Rightarrow> Inr (put_entry sd p))"
  by (simp add: add_reading_def reading_entry_def put_entry_def split: sum.splits)

lemma add_readings_entries:
  "add_readings dt sd rds =
     (case reading_entries dt rds of Inl e \<Rightarrow> Inl e | Inr ps \<Rightarrow> Inr (foldl put_entry sd ps))"
  by (induction rds arbitrary: sd) (simp_all add: add_reading_entry split: sum.splits)

lemma add_record_entries:
  "add_record sd r =
     (case record_entries r of Inl e \<Rightarrow> Inl e | Inr ps \<Rightarrow> Inr (foldl put_entry sd ps))"
  by (simp add: add_record_def record_entries_def add_readings_entries split: sum.splits)

lemma add_records_ok:
  "list_all (\<lambda>r. is_ok (record_entries r)) recs \<Longrightarrow>
   add_records sd recs = Inr (foldl put_entry sd (concat (map entries_of recs)))"
  by (induction recs arbitrary: sd)
     (auto simp: add_record_entries is_ok_def entries_of_def split: sum.splits)

lemma add_records_fail:
  "\<not> list_all (\<lambda>r. is_ok (record_entries r)) recs \<Longrightarrow> \<exists>e. add_records sd recs = Inl e"
  by (induction recs arbitrary: sd)
     (auto simp: add_record_entries is_ok_def split: sum.splits)

lemma add_records_Inr_iff:
  "add_records sd recs = Inr sd' \<longleftrightarrow>
   list_all (\<lambda>r. is_ok (record_entries r)) recs \<and>
   sd' = foldl put_entry sd (concat (map entries_of recs))"
proof (cases "list_all (\<lambda>r. is_ok (record_entries r)) recs")
  case True
  then show ?thesis using add_records_ok [of recs sd] by auto
next
  case False
  then show ?thesis using add_records_fail [of recs sd] by auto
qed

lemma mset_concat_map:
  "mset (concat (map f xs)) = (\<Sum>x\<in>#mset xs. mset (f x))"
  by (induction xs) simp_all

lemma mset_entries_perm:
  "mset recs' = mset recs \<Longrightarrow>
   mset (concat (map entries_of recs')) = mset (concat (map entries_of recs))"
  by (simp add: mset_concat_map)

lemma mset_readings_for:
  "mset ps' = mset ps \<Longrightarrow> mset (readings_for k ps') = mset (readings_for k ps)"
  by (simp add: readings_for_def)

lemma list_all_perm: "mset xs' = mset xs \<Longrightarrow> list_all P xs' = list_all P xs"
  by (auto simp: list_all_iff dest: mset_eq_setD)

subsection \<open>Sorting\<close>

lemma ts_keys_ok:
  "list_all (\<lambda>r. is_ok (ts_key lib r)) rs \<Longrightarrow> ts_keys lib rs = Inr (map (reading_dt lib) rs)"
  by (induction rs) (auto simp: is_ok_def reading_dt_def split: sum.splits)

lemma ts_keys_fail:
  "\<not> list_all (\<lambda>r. is_ok (ts_key lib r)) rs \<Longrightarrow> \<exists>e. ts_keys lib rs = Inl e"
  by (induction rs) (auto simp: is_ok_def split: sum.splits)

lemma ts_keys_Inr_iff:
  "ts_keys lib rs = Inr ts \<longleftrightarrow>
   list_all (\<lambda>r. is_ok (ts_key lib r)) rs \<and> ts = map (reading_dt lib) rs"
proof (cases "list_all (\<lambda>r. is_ok (ts_key lib r)) rs")
  case True
  then show ?thesis using ts_keys_ok [of lib rs] by auto
next
  case False
  then show ?thesis using ts_keys_fail [of lib rs] by auto
qed

lemma insort_key_map:
  "insort_key F (g x) (map g ys) = map g (insort_key (\<lambda>y. F (g y)) x ys)"
  by (induction ys) simp_all

lemma sort_key_map: "sort_key F (map g xs) = map g (sort_key (\<lambda>y. F (g y)) xs)"
  by (induction xs) (simp_all add: insort_key_map)

lemma sort_zip_keys:
  "map snd (sort_key (\<lambda>p. F (fst p)) (zip (map h rs) rs)) = sort_key (\<lambda>r. F (h r)) rs"
proof -
  have "zip (map h rs) rs = map (\<lambda>r. (h r, r)) rs"
    by (induction rs) simp_all
  then show ?thesis
    by (simp add: sort_key_map comp_def)
qed

lemma reading_instant_dt: "reading_instant lib r = instant (reading_dt lib r)"
  by (simp add: reading_instant_def reading_dt_def instant_def split: sum.splits)

lemma sorted_readings_ok:
  "list_all (\<lambda>r. is_ok (ts_key lib r)) rs \<Longrightarrow> comparable (map (reading_dt lib) rs) \<Longrightarrow>
   sorted_readings lib rs = Inr (sort_key (reading_instant lib) rs)"
  by (simp add: sorted_readings_def ts_keys_ok sort_zip_keys flip: reading_instant_dt)

lemma sorted_readings_Inr_iff:
  "sorted_readings lib rs = Inr out \<longleftrightarrow>
   list_all (\<lambda>r. is_ok (ts_key lib r)) rs \<and> comparable (map (reading_dt lib) rs) \<and>
   out = sort_key (reading_instant lib) rs"
proof (cases "list_all (\<lambda>r. is_ok (ts_key lib r)) rs")
  case True
  then show ?thesis
    by (auto simp: sorted_readings_def ts_keys_ok sort_zip_keys simp flip: reading_instant_dt)
next
  case False
  then obtain e where "ts_keys lib rs = Inl e"
    using ts_keys_fail by blast
  with False show ?thesis
    by (simp add: sorted_readings_def)
qed

lemma comparable_perm: "mset ts' = mset ts \<Longrightarrow> comparable ts' = comparable ts"
  using list_all_perm [of ts' ts is_naive] list_all_perm [of ts' ts "\<lambda>t. \<not> is_naive t"]
  by (simp add: comparable_def)

lemma digit_char_eval:
  "digit_char 0 = CHR ''0''" "digit_char 1 = CHR ''1''" "digit_char 2 = CHR ''2''"
  "digit_char 3 = CHR ''3''" "digit_char 4 = CHR ''4''" "digit_char 5 = CHR ''5''"
  "digit_char 6 = CHR ''6''" "digit_char 7 = CHR ''7''" "digit_char 8 = CHR ''8''"
  "digit_char 9 = CHR ''9''" "digit_char (Suc 0) = CHR ''1''"
  by code_simp+

lemmas str_eval = py_str_def str_int_def digits_of.simps digit_char_eval format_line_def

lemmas date_eval = strptime_ymd_def is_digit_def is_digit19_def digit_val_def valid_date_def
  days_in_month_def is_leap_def

lemmas iso_eval = fromisoformat_core_def parse_date10_def parse_time8_def parse_offset6_def
  num2_def ordinal_def days_before_month_def upt_rec date_eval

lemmas group_eval = group_wbgt_by_station_def get_records_def py_get_def py_iter_def
  add_record_def add_reading_def resolve_town_def hashable_def py_eq_def is_num_def

section \<open>The claims\<close>

text \<open>
  C6. A choice whose id is not a key of the user's stored result, or that comes when
  nothing is stored, gets the fixed "station data not found" reply; the stored data is
  unchanged and no exception is raised (the result is \<open>Inr\<close>).
\<close>
theorem button_handler_unknown_choice:
  "\<not> dict_mem (case station_data ud of None \<Rightarrow> [] | Some d \<Rightarrow> d) (JStr choice) \<Longrightarrow>
   button_handler lib choice ud = Inr (ud, [ReplyText not_found_msg])"
  by (simp add: button_handler_def)

theorem button_handler_unknown_choice_witness:
  "button_handler py_core ''Sentosa'' \<lparr>station_data = Some [(JStr ''Changi'', [(JStr ''2024-06-01T08:00:00Z'', JInt 28, JStr ''Moderate'')])]\<rparr>
     = Inr (\<lparr>station_data = Some [(JStr ''Changi'', [(JStr ''2024-06-01T08:00:00Z'', JInt 28, JStr ''Moderate'')])]\<rparr>,
            [ReplyText ''Station data not found. Please send the date again.''])
   \<and> button_handler py_core ''Sentosa'' \<lparr>station_data = None\<rparr>
     = Inr (\<lparr>station_data = None\<rparr>, [ReplyText ''Station data not found. Please send the date again.''])"
  using button_handler_unknown_choice [of "\<lparr>station_data = Some [(JStr ''Changi'', [(JStr ''2024-06-01T08:00:00Z'', JInt 28, JStr ''Moderate'')])]\<rparr>" "''Sentosa''" py_core]
    button_handler_unknown_choice [of "\<lparr>station_data = None\<rparr>" "''Sentosa''" py_core]
  by (simp add: py_eq_def is_num_def not_found_msg_def)

text \<open>
  C5, at the failing input. A payload with one record that has no readings gives an
  empty dict of stations, and \<^verbatim>\<open>format_wbgt_by_station_split\<close> returns the empty list
  of blocks: it tests \<^verbatim>\<open>not records\<close>, not whether any station was found.
\<close>
theorem split_records_without_readings:
  "format_wbgt_by_station_split lib
     (JObj [(''data'', JObj [(''records'', JArr [JObj [(''datetime'', JStr ''2024-06-01T08:00:00Z''), (''item'', JObj [(''readings'', JArr [])])]])])]) = Inr []
   \<and> group_wbgt_by_station
     (JObj [(''data'', JObj [(''records'', JArr [JObj [(''datetime'', JStr ''2024-06-01T08:00:00Z''), (''item'', JObj [(''readings'', JArr [])])]])])]) = Inr []"
  by (simp add: format_wbgt_by_station_split_def group_eval py_truthy_def sorted_keys_def)

text \<open>
  C1, as stated, fails: a station whose \<^verbatim>\<open>townCenter\<close> is present with the value
  \<^verbatim>\<open>None\<close> gets the key \<^verbatim>\<open>None\<close>, not its name or id.
\<close>
theorem town_present_but_null:
  "resolve_town (JObj [(''townCenter'', JNull), (''name'', JStr ''Changi''), (''id'', JStr ''S109'')]) = Inr JNull
   \<and> add_reading (JStr ''2024-06-01T08:00:00Z'') []
        (JObj [(''station'', JObj [(''townCenter'', JNull), (''name'', JStr ''Changi''), (''id'', JStr ''S109'')]),
               (''wbgt'', JInt 28), (''heatStress'', JStr ''Moderate'')])
      = Inr [(JNull, [(JStr ''2024-06-01T08:00:00Z'', JInt 28, JStr ''Moderate'')])]"
  by (simp add: group_eval)

text \<open>The chain takes the first key that is present, whatever its value.\<close>

lemma resolve_town_JObj: "resolve_town (JObj kvs) = Inr (fallback_chain kvs)"
  by (simp add: resolve_town_def py_get_def fallback_chain_def split: option.splits)

text \<open>
  C1, amended. For a reading whose station is a dict (or is absent, which stands for the
  empty dict), the grouping step takes as key the value of the first of \<^verbatim>\<open>townCenter\<close>,
  \<^verbatim>\<open>name\<close>, \<^verbatim>\<open>id\<close> that is present as a key, whatever that value is (\<^verbatim>\<open>None\<close> when
  none is present). When that value can be a dictionary key (it is not a list or a dict),
  the reading is appended to the group of that key; otherwise the step raises
  \<^verbatim>\<open>TypeError\<close>.
\<close>

theorem station_key_first_present:
  "py_get (JObj flds) ''station'' (JObj []) = Inr (JObj kvs) \<Longrightarrow>
   resolve_town (JObj kvs) = Inr (fallback_chain kvs) \<and>
   add_reading dt sd (JObj flds) =
     (if hashable (fallback_chain kvs)
      then Inr (dict_append sd (fallback_chain kvs)
                 (dt, get_or_none flds ''wbgt'', get_or_none flds ''heatStress''))
      else Inl TypeError)"
  by (auto simp: add_reading_def resolve_town_JObj py_get_def get_or_none_def
      split: option.splits)

theorem station_key_first_present_witness:
  "add_reading (JStr ''2024-06-01T08:00:00Z'') []
        (JObj [(''station'', JObj [(''name'', JStr ''Changi''), (''id'', JStr ''S109'')]),
               (''wbgt'', JInt 28), (''heatStress'', JStr ''Moderate'')])
      = Inr [(JStr ''Changi'', [(JStr ''2024-06-01T08:00:00Z'', JInt 28, JStr ''Moderate'')])]
   \<and> fallback_chain [(''name'', JStr ''Changi''), (''id'', JStr ''S109'')] = JStr ''Changi''
   \<and> add_reading (JStr ''2024-06-01T08:00:00Z'') []
        (JObj [(''station'', JObj [(''townCenter'', JArr []), (''name'', JStr ''Changi'')])])
      = Inl TypeError"
  using station_key_first_present [of
      "[(''station'', JObj [(''name'', JStr ''Changi''), (''id'', JStr ''S109'')]),
        (''wbgt'', JInt 28), (''heatStress'', JStr ''Moderate'')]"
      "[(''name'', JStr ''Changi''), (''id'', JStr ''S109'')]"
      "JStr ''2024-06-01T08:00:00Z''" "[]"]
    station_key_first_present [of
      "[(''station'', JObj [(''townCenter'', JArr []), (''name'', JStr ''Changi'')])]"
      "[(''townCenter'', JArr []), (''name'', JStr ''Changi'')]"
      "JStr ''2024-06-01T08:00:00Z''" "[]"]
  by (simp add: py_get_def fallback_chain_def hashable_def get_or_none_def)

lemmas strip_eval = py_strip_def py_isspace_def

text \<open>A body that is a dict without \<^verbatim>\<open>data\<close>, or whose \<^verbatim>\<open>data\<close> is a dict without
  \<^verbatim>\<open>records\<close>, has the empty list of records.\<close>
lemma get_records_missing:
  "map_of kvs ''data'' = None \<or> (\<exists>d. map_of kvs ''data'' = Some (JObj d) \<and> map_of d ''records'' = None) \<Longrightarrow>
   get_records (JObj kvs) = Inr (JArr [])"
  by (auto simp: get_records_def py_get_def)

lemma get_records_not_dict:
  "\<not> is_dict body \<or> (\<exists>kvs v. body = JObj kvs \<and> map_of kvs ''data'' = Some v \<and> \<not> is_dict v) \<Longrightarrow>
   get_records body = Inl AttributeError"
proof (erule disjE)
  assume "\<not> is_dict body"
  then show ?thesis
    by (cases body) (simp_all add: get_records_def py_get_def is_dict_def)
next
  assume "\<exists>kvs v. body = JObj kvs \<and> map_of kvs ''data'' = Some v \<and> \<not> is_dict v"
  then obtain kvs v where "body = JObj kvs" and "map_of kvs ''data'' = Some v" and "\<not> is_dict v"
    by blast
  then show ?thesis
    by (cases v) (simp_all add: get_records_def py_get_def is_dict_def)
qed

text \<open>
  C8, as stated, fails: in the bodies \<^verbatim>\<open>[]\<close> and \<^verbatim>\<open>{"data": []}\<close> the path to the
  records is missing, and \<^verbatim>\<open>get\<close> on the list raises \<^verbatim>\<open>AttributeError\<close>; the handlers
  reply with the error, not with the empty-result message.
\<close>

theorem records_path_under_non_dict_raises:
  "group_wbgt_by_station (JArr []) = Inl AttributeError \<and>
   group_wbgt_by_station (JObj [(''data'', JArr [])]) = Inl AttributeError \<and>
   format_wbgt_by_station_split py_core (JArr []) = Inl AttributeError \<and>
   handle_date py_core (\<lambda>d. Inr (JArr [])) ''2024-06-01'' \<lparr>station_data = None\<rparr> =
     (\<lparr>station_data = None\<rparr>, [Fetch ''2024-06-01'', ReplyError AttributeError]) \<and>
   handle_date_split py_core (\<lambda>d. Inr (JArr [])) ''2024-06-01'' =
     [Fetch ''2024-06-01'', ReplyError AttributeError]"
proof -
  have s: "py_strip ''2024-06-01'' = ''2024-06-01''"
    by (simp add: strip_eval)
  have ok: "date_input_ok py_core ''2024-06-01''"
    by (simp add: date_input_ok_def date_eval)
  have g: "group_wbgt_by_station (JArr []) = Inl AttributeError"
    "group_wbgt_by_station (JObj [(''data'', JArr [])]) = Inl AttributeError"
    by (simp_all add: group_eval)
  have f: "format_wbgt_by_station_split py_core (JArr []) = Inl AttributeError"
    by (simp add: format_wbgt_by_station_split_def get_records_def py_get_def)
  show ?thesis
    by (simp add: g f s ok handle_date_def handle_date_split_def Let_def)
qed

text \<open>
  C8, amended. When the parsed body is a dict that lacks the \<^verbatim>\<open>data\<close> field, or whose
  \<^verbatim>\<open>data\<close> is a dict that lacks the \<^verbatim>\<open>records\<close> field, grouping gives the empty result
  without an error, the all-stations formatter gives the one block "No records found.", and
  both handlers reply with it. When the body is not a dict, or its \<^verbatim>\<open>data\<close> is present
  and not a dict, \<^verbatim>\<open>get\<close> raises \<^verbatim>\<open>AttributeError\<close> and both handlers reply with the
  error.
\<close>

theorem missing_records_path_is_empty:
  "(map_of kvs ''data'' = None \<or>
      (\<exists>d. map_of kvs ''data'' = Some (JObj d) \<and> map_of d ''records'' = None) \<longrightarrow>
    group_wbgt_by_station (JObj kvs) = Inr [] \<and>
    format_wbgt_by_station_split lib (JObj kvs) = Inr [''No records found.''] \<and>
    (date_input_ok lib (py_strip text) \<and> fetch_wbgt (py_strip text) = Inr (JObj kvs) \<longrightarrow>
       handle_date lib fetch_wbgt text ud =
         (ud, [Fetch (py_strip text), ReplyText ''No records found.'']) \<and>
       handle_date_split lib fetch_wbgt text =
         [Fetch (py_strip text), ReplyText ''No records found.''])) \<and>
   (\<not> is_dict body \<or>
      (\<exists>kvs' v. body = JObj kvs' \<and> map_of kvs' ''data'' = Some v \<and> \<not> is_dict v) \<longrightarrow>
    group_wbgt_by_station body = Inl AttributeError \<and>
    format_wbgt_by_station_split lib body = Inl AttributeError \<and>
    (date_input_ok lib (py_strip text) \<and> fetch_wbgt (py_strip text) = Inr body \<longrightarrow>
       handle_date lib fetch_wbgt text ud =
         (ud, [Fetch (py_strip text), ReplyError AttributeError]) \<and>
       handle_date_split lib fetch_wbgt text =
         [Fetch (py_strip text), ReplyError AttributeError]))"
proof (intro conjI impI)
  assume a: "map_of kvs ''data'' = None \<or>
      (\<exists>d. map_of kvs ''data'' = Some (JObj d) \<and> map_of d ''records'' = None)"
  have r: "get_records (JObj kvs) = Inr (JArr [])"
    using a by (rule get_records_missing)
  show g: "group_wbgt_by_station (JObj kvs) = Inr []"
    by (simp add: group_wbgt_by_station_def r py_iter_def)
  show f: "format_wbgt_by_station_split lib (JObj kvs) = Inr [''No records found.'']"
    by (simp add: format_wbgt_by_station_split_def r py_truthy_def)
  assume "date_input_ok lib (py_strip text) \<and> fetch_wbgt (py_strip text) = Inr (JObj kvs)"
  then show "handle_date lib fetch_wbgt text ud =
         (ud, [Fetch (py_strip text), ReplyText ''No records found.''])"
    and "handle_date_split lib fetch_wbgt text =
         [Fetch (py_strip text), ReplyText ''No records found.'']"
    by (simp_all add: g f handle_date_def handle_date_split_def)
next
  assume b: "\<not> is_dict body \<or>
      (\<exists>kvs' v. body = JObj kvs' \<and> map_of kvs' ''data'' = Some v \<and> \<not> is_dict v)"
  have r: "get_records body = Inl AttributeError"
    using b by (rule get_records_not_dict)
  show g: "group_wbgt_by_station body = Inl AttributeError"
    by (simp add: group_wbgt_by_station_def r)
  show f: "format_wbgt_by_station_split lib body = Inl AttributeError"
    by (simp add: format_wbgt_by_station_split_def r)
  assume "date_input_ok lib (py_strip text) \<and> fetch_wbgt (py_strip text) = Inr body"
  then show "handle_date lib fetch_wbgt text ud =
         (ud, [Fetch (py_strip text), ReplyError AttributeError])"
    and "handle_date_split lib fetch_wbgt text =
         [Fetch (py_strip text), ReplyError AttributeError]"
    by (simp_all add: g f handle_date_def handle_date_split_def)
qed

theorem missing_records_path_is_empty_witness:
  "group_wbgt_by_station (JObj [(''data'', JObj [])]) = Inr [] \<and>
   format_wbgt_by_station_split py_core (JObj [(''data'', JObj [])]) = Inr [''No records found.''] \<and>
   handle_date py_core (\<lambda>d. Inr (JObj [(''data'', JObj [])])) ''2024-06-01'' \<lparr>station_data = None\<rparr> =
     (\<lparr>station_data = None\<rparr>, [Fetch ''2024-06-01'', ReplyText ''No records found.'']) \<and>
   handle_date_split py_core (\<lambda>d. Inr (JObj [(''data'', JObj [])])) ''2024-06-01'' =
     [Fetch ''2024-06-01'', ReplyText ''No records found.''] \<and>
   group_wbgt_by_station (JObj [(''data'', JNull)]) = Inl AttributeError"
proof -
  have s: "py_strip ''2024-06-01'' = ''2024-06-01''"
    by (simp add: strip_eval)
  have ok: "date_input_ok py_core ''2024-06-01''"
    by (simp add: date_input_ok_def date_eval)
  have d: "\<not> is_dict JNull"
    by (simp add: is_dict_def)
  show ?thesis
    using missing_records_path_is_empty [of "[(''data'', JObj [])]" py_core "''2024-06-01''"
        "\<lambda>d. Inr (JObj [(''data'', JObj [])])" "\<lparr>station_data = None\<rparr>"
        "JObj [(''data'', JNull)]"] s ok d
    by simp
qed

text \<open>The header of a block names the station through \<^verbatim>\<open>str()\<close>.\<close>
lemma format_station_data_header:
  "format_station_data lib station rs =
     (case sorted_readings lib rs of
        Inl e \<Rightarrow> Inl e
      | Inr out \<Rightarrow> Inr (join_nl ((''Station: '' @ py_str lib station) # map (format_line lib) out)))"
  by (simp add: format_station_data_def)

text \<open>
  C10. A reading without a \<^verbatim>\<open>station\<close>, or whose station dict has none of
  \<^verbatim>\<open>townCenter\<close>, \<^verbatim>\<open>name\<close>, \<^verbatim>\<open>id\<close>, does not fail in the grouping step: it is
  appended to the group of the key \<^verbatim>\<open>None\<close>, and the block of that group starts with the
  header "Station: None".
\<close>

theorem reading_without_station_name:
  assumes "map_of flds ''station'' = None \<or>
           (\<exists>kvs. map_of flds ''station'' = Some (JObj kvs) \<and> map_of kvs ''townCenter'' = None \<and>
                  map_of kvs ''name'' = None \<and> map_of kvs ''id'' = None)"
  shows "add_reading dt sd (JObj flds) =
           Inr (dict_append sd JNull (dt, get_or_none flds ''wbgt'', get_or_none flds ''heatStress'')) \<and>
         dict_get (dict_append sd JNull (dt, get_or_none flds ''wbgt'', get_or_none flds ''heatStress'')) JNull =
           dict_get sd JNull @ [(dt, get_or_none flds ''wbgt'', get_or_none flds ''heatStress'')] \<and>
         format_station_data lib JNull rs =
           (case sorted_readings lib rs of
              Inl e \<Rightarrow> Inl e
            | Inr out \<Rightarrow> Inr (join_nl (''Station: None'' # map (format_line lib) out)))"
proof -
  have "add_reading dt sd (JObj flds) =
           Inr (dict_append sd JNull (dt, get_or_none flds ''wbgt'', get_or_none flds ''heatStress''))"
    using assms
    by (auto simp: add_reading_def resolve_town_def py_get_def hashable_def get_or_none_def
        split: option.splits)
  then show ?thesis
    by (simp add: dict_get_append py_eq_refl format_station_data_header py_str_def split: sum.splits)
qed

theorem reading_without_station_name_witness:
  "add_reading (JStr ''2024-06-01T08:00:00Z'') [(JStr ''Changi'', [])]
       (JObj [(''station'', JObj [(''region'', JStr ''East'')]), (''wbgt'', JInt 28)]) =
     Inr [(JStr ''Changi'', []), (JNull, [(JStr ''2024-06-01T08:00:00Z'', JInt 28, JNull)])] \<and>
   format_station_data py_core JNull [(JStr ''2024-06-01T08:00:00Z'', JInt 28, JNull)] =
     Inr (''Station: None'' @ [CHR 0x0A] @ ''  2024-06-01T08:00:00Z  WBGT: 28  HeatStress: None'')"
  using reading_without_station_name [of "[(''station'', JObj [(''region'', JStr ''East'')]), (''wbgt'', JInt 28)]"
      "JStr ''2024-06-01T08:00:00Z''" "[(JStr ''Changi'', [])]" py_core "[(JStr ''2024-06-01T08:00:00Z'', JInt 28, JNull)]"]
  by (simp add: get_or_none_def py_eq_def is_num_def sorted_readings_def ts_key_def py_core_def
      iso_eval comparable_def is_naive_def str_eval)

text \<open>Every \<^verbatim>\<open>Z\<close> is replaced, so a final \<^verbatim>\<open>Z\<close> gives the same key as a final
  \<^verbatim>\<open>+00:00\<close>.\<close>
lemma replace_Z_append: "replace_Z (a @ b) = replace_Z a @ replace_Z b"
  by (induction a) simp_all

lemma ts_key_Z_suffix:
  "ts_key lib (JStr (p @ ''Z''), w, h) = ts_key lib (JStr (p @ ''+00:00''), w, h)"
  by (simp add: ts_key_def replace_Z_append)

text \<open>
  C4. When the timestamps of a group parse and can be compared, the displayed sequence
  exists, is ascending in the parsed timestamp, has the readings of the group, and keeps
  readings with equal parsed timestamps in their original order; a timestamp that ends in
  \<^verbatim>\<open>Z\<close> has the key of the same text ending in \<^verbatim>\<open>+00:00\<close>.
\<close>

theorem readings_sorted_by_timestamp:
  assumes "ts_keys lib rs = Inr ts" and "comparable ts"
  shows "\<exists>out. sorted_readings lib rs = Inr out \<and>
           format_station_data lib station rs =
             Inr (join_nl ((''Station: '' @ py_str lib station) # map (format_line lib) out)) \<and>
           sorted (map (reading_instant lib) out) \<and>
           mset out = mset rs \<and>
           (\<forall>i. filter (\<lambda>r. reading_instant lib r = i) out =
                filter (\<lambda>r. reading_instant lib r = i) rs) \<and>
           ts_key lib (JStr (p @ ''Z''), w, h) = ts_key lib (JStr (p @ ''+00:00''), w, h)"
proof -
  from assms have ok: "list_all (\<lambda>r. is_ok (ts_key lib r)) rs"
    and cmp: "comparable (map (reading_dt lib) rs)"
    by (simp_all add: ts_keys_Inr_iff)
  have s: "sorted_readings lib rs = Inr (sort_key (reading_instant lib) rs)"
    using ok cmp by (rule sorted_readings_ok)
  show ?thesis
    by (simp add: s format_station_data_header sort_key_stable ts_key_Z_suffix)
qed

theorem readings_sorted_by_timestamp_witness:
  "sorted_readings py_core
      [(JStr ''2024-06-01T08:00:00Z'', JInt 30, JStr ''High''),
       (JStr ''2024-06-01T07:00:00Z'', JInt 28, JStr ''Moderate''),
       (JStr ''2024-06-01T08:00:00+00:00'', JInt 31, JStr ''High'')] =
     Inr [(JStr ''2024-06-01T07:00:00Z'', JInt 28, JStr ''Moderate''),
          (JStr ''2024-06-01T08:00:00Z'', JInt 30, JStr ''High''),
          (JStr ''2024-06-01T08:00:00+00:00'', JInt 31, JStr ''High'')]"
proof -
  have k: "ts_keys py_core
      [(JStr ''2024-06-01T08:00:00Z'', JInt 30, JStr ''High''),
       (JStr ''2024-06-01T07:00:00Z'', JInt 28, JStr ''Moderate''),
       (JStr ''2024-06-01T08:00:00+00:00'', JInt 31, JStr ''High'')] =
     Inr [Aware 63852912000000000, Aware 63852908400000000, Aware 63852912000000000]"
    by (simp add: ts_key_def py_core_def iso_eval)
  have c: "comparable [Aware 63852912000000000, Aware 63852908400000000, Aware 63852912000000000]"
    by (simp add: comparable_def is_naive_def)
  from readings_sorted_by_timestamp [OF k c, of "JStr ''Changi''" "[]" JNull JNull]
  obtain out where "sorted_readings py_core
      [(JStr ''2024-06-01T08:00:00Z'', JInt 30, JStr ''High''),
       (JStr ''2024-06-01T07:00:00Z'', JInt 28, JStr ''Moderate''),
       (JStr ''2024-06-01T08:00:00+00:00'', JInt 31, JStr ''High'')] = Inr out"
    by blast
  then show ?thesis
    by (simp add: sorted_readings_def k c instant_def del: ts_keys.simps)
qed

text \<open>
  C9. For a station key and a time-sorted sequence of readings, the formatter returns one
  block: the header line with the station, then one line per reading in the order of the
  sequence, showing timestamp, WBGT value and heat-stress label as \<^verbatim>\<open>str()\<close> gives them: a
  str verbatim, \<^verbatim>\<open>None\<close> as "None".
\<close>

theorem format_station_data_block:
  assumes "ts_keys lib rs = Inr ts" and "comparable ts" and "sorted (map instant ts)"
  shows "format_station_data lib station rs =
           Inr (join_nl ((''Station: '' @ py_str lib station) # map (format_line lib) rs)) \<and>
         format_line lib (dt, wbgt, heat_stress) =
           ''  '' @ py_str lib dt @ ''  WBGT: '' @ py_str lib wbgt @ ''  HeatStress: '' @ py_str lib heat_stress \<and>
         py_str lib (JStr s) = s \<and> py_str lib JNull = ''None''"
proof -
  from assms have ok: "list_all (\<lambda>r. is_ok (ts_key lib r)) rs"
    and ts: "ts = map (reading_dt lib) rs"
    by (simp_all add: ts_keys_Inr_iff)
  have cmp: "comparable (map (reading_dt lib) rs)"
    using assms(2) ts by simp
  have "sorted (map (reading_instant lib) rs)"
    using assms(3) ts by (simp add: comp_def flip: reading_instant_dt)
  then have "sort_key (reading_instant lib) rs = rs"
    by (rule sort_key_id_if_sorted)
  then have "sorted_readings lib rs = Inr rs"
    using sorted_readings_ok [OF ok cmp] by simp
  then show ?thesis
    by (simp add: format_station_data_header format_line_def py_str_def)
qed

theorem format_station_data_block_witness:
  "format_station_data py_core (JStr ''Changi'')
      [(JStr ''2024-06-01T07:00:00Z'', JNull, JNull),
       (JStr ''2024-06-01T08:00:00Z'', JInt 28, JStr ''Moderate'')] =
     Inr (''Station: Changi'' @ [CHR 0x0A] @
          ''  2024-06-01T07:00:00Z  WBGT: None  HeatStress: None'' @ [CHR 0x0A] @
          ''  2024-06-01T08:00:00Z  WBGT: 28  HeatStress: Moderate'')"
proof -
  have k: "ts_keys py_core
      [(JStr ''2024-06-01T07:00:00Z'', JNull, JNull),
       (JStr ''2024-06-01T08:00:00Z'', JInt 28, JStr ''Moderate'')] =
     Inr [Aware 63852908400000000, Aware 63852912000000000]"
    by (simp add: ts_key_def py_core_def iso_eval)
  have c: "comparable [Aware 63852908400000000, Aware 63852912000000000]"
    by (simp add: comparable_def is_naive_def)
  have s: "sorted (map instant [Aware 63852908400000000, Aware 63852912000000000])"
    by (simp add: instant_def)
  show ?thesis
    using format_station_data_block [OF k c s, of "JStr ''Changi''" JNull JNull JNull "[]"]
    by (simp add: str_eval)
qed

lemmas example_eval = body_of_records_def example_record_def




text \<open>The digits of a zero-padded date are read back by the \<^verbatim>\<open>strptime\<close> pattern.\<close>
lemma of_char_digit_char: "n < 10 \<Longrightarrow> (of_char (digit_char n) :: nat) = 48 + n"
  by (simp add: digit_char_def)

lemma is_digit_digit_char: "n < 10 \<Longrightarrow> is_digit (digit_char n)"
  by (simp add: is_digit_def of_char_digit_char)

lemma digit_val_digit_char: "n < 10 \<Longrightarrow> digit_val (digit_char n) = n"
  by (simp add: digit_val_def of_char_digit_char)

lemma months: "[1..<13] = [1, 2, 3, 4, 5, 6, 7, 8, 9, 10, 11, 12 :: nat]"
  by code_simp

lemma days: "[1..<32] = [1, 2, 3, 4, 5, 6, 7, 8, 9, 10, 11, 12, 13, 14, 15, 16, 17, 18, 19, 20,
      21, 22, 23, 24, 25, 26, 27, 28, 29, 30, 31 :: nat]"
  by code_simp

lemma match_m_pad2_all: "\<forall>m\<in>set [1..<13]. match_m (pad2 m @ rest) = Some (m, rest)"
  unfolding months
  by (simp add: pad2_def digit_char_eval is_digit19_def is_digit_def digit_val_def)

lemma match_m_pad2:
  assumes "1 \<le> m" and "m \<le> 12"
  shows "match_m (pad2 m @ rest) = Some (m, rest)"
proof -
  from assms have "m \<in> set [1..<13]"
    by simp
  then show ?thesis
    using match_m_pad2_all by blast
qed

lemma match_d_pad2_all: "\<forall>d\<in>set [1..<32]. match_d (pad2 d) = Some (d, [])"
  unfolding days
  by (simp add: pad2_def digit_char_eval is_digit19_def is_digit_def digit_val_def)

lemma match_d_pad2:
  assumes "1 \<le> d" and "d \<le> 31"
  shows "match_d (pad2 d) = Some (d, [])"
proof -
  from assms have "d \<in> set [1..<32]"
    by simp
  then show ?thesis
    using match_d_pad2_all by blast
qed

lemma digit_char_not_T: "n < 10 \<Longrightarrow> digit_char n \<noteq> CHR ''T''"
proof
  assume "n < 10" and "digit_char n = CHR ''T''"
  then have "(of_char (CHR ''T'') :: nat) = 48 + n"
    using of_char_digit_char [of n] by simp
  with \<open>n < 10\<close> show False
    by simp
qed

lemma ymd_string_no_T: "CHR ''T'' \<notin> set (ymd_string y m d)"
  using digit_char_not_T [of "y div 1000 mod 10"] digit_char_not_T [of "y div 100 mod 10"]
    digit_char_not_T [of "y div 10 mod 10"] digit_char_not_T [of "y mod 10"]
    digit_char_not_T [of "m div 10 mod 10"] digit_char_not_T [of "m mod 10"]
    digit_char_not_T [of "d div 10 mod 10"] digit_char_not_T [of "d mod 10"]
  by (auto simp: ymd_string_def pad4_def pad2_def)

lemma days_in_month_le: "days_in_month y m \<le> 31"
  by (simp add: days_in_month_def)

lemma pad4_value:
  assumes "(y::nat) \<le> 9999"
  shows "1000 * (y div 1000 mod 10) + 100 * (y div 100 mod 10) + 10 * (y div 10 mod 10) + y mod 10 = y"
proof -
  define a where "a = y div 10"
  define b where "b = a div 10"
  define c where "c = b div 10"
  have b: "y div 100 = b"
    by (simp add: a_def b_def div_mult2_eq)
  have c: "y div 1000 = c"
    by (simp add: a_def b_def c_def div_mult2_eq)
  have "c < 10"
    using assms unfolding c [symmetric] by simp
  then have c10: "c mod 10 = c"
    by simp
  have y: "y = 10 * a + y mod 10"
    by (simp add: a_def)
  have a: "a = 10 * b + a mod 10"
    by (simp add: b_def)
  have b': "b = 10 * c + b mod 10"
    by (simp add: c_def)
  have "1000 * c + 100 * (b mod 10) + 10 * (a mod 10) + y mod 10 = y"
    using y a b' by linarith
  then show ?thesis
    by (simp add: b c c10 a_def [symmetric])
qed

lemma strptime_ymd_string:
  assumes "valid_date y m d"
  shows "strptime_ymd (ymd_string y m d) = Some (y, m, d)"
proof -
  from assms have y: "y \<le> 9999" and m: "1 \<le> m" "m \<le> 12" and d: "1 \<le> d" "d \<le> 31"
    using days_in_month_le [of y m] by (auto simp: valid_date_def)
  have mm: "match_m (pad2 m @ CHR ''-'' # pad2 d) = Some (m, CHR ''-'' # pad2 d)"
    using m by (rule match_m_pad2)
  have dd: "match_d (pad2 d) = Some (d, [])"
    using d by (rule match_d_pad2)
  show ?thesis
    using assms
    by (simp add: strptime_ymd_def ymd_string_def pad4_def is_digit_digit_char
        digit_val_digit_char mm dd pad4_value [OF y])
qed

lemma strptime_ymd_valid: "strptime_ymd s = Some (y, m, d) \<Longrightarrow> valid_date y m d"
  by (auto simp: strptime_ymd_def Let_def split: list.splits if_splits option.splits prod.splits)

lemma pad2_value:
  assumes "(n::nat) < 100"
  shows "10 * (n div 10 mod 10) + n mod 10 = n"
proof -
  have "n div 10 < 10"
    using assms by simp
  then have "n div 10 mod 10 = n div 10"
    by simp
  then show ?thesis
    by simp
qed

lemma num2_digit_char:
  "a < 10 \<Longrightarrow> b < 10 \<Longrightarrow> num2 (digit_char a) (digit_char b) = Some (10 * a + b)"
  by (simp add: num2_def is_digit_digit_char digit_val_digit_char)

lemma num2_pad2:
  assumes "n < 100"
  shows "num2 (digit_char (n div 10 mod 10)) (digit_char (n mod 10)) = Some n"
  using pad2_value [OF assms] by (simp add: num2_digit_char)

lemma year_value:
  assumes "(y::nat) \<le> 9999"
  shows "1000 * (y div 1000 mod 10) + 100 * (y div 100 mod 10) + (10 * (y div 10 mod 10) + y mod 10) = y"
proof -
  define a b c e where "a = y div 1000 mod 10" and "b = y div 100 mod 10"
    and "c = y div 10 mod 10" and "e = y mod 10"
  have "1000 * a + 100 * b + 10 * c + e = y"
    unfolding a_def b_def c_def e_def using assms by (rule pad4_value)
  then have "1000 * a + 100 * b + (10 * c + e) = y"
    by simp
  then show ?thesis
    unfolding a_def b_def c_def e_def .
qed

lemma parse_date10_ymd_string:
  assumes "valid_date y m d"
  shows "parse_date10 (ymd_string y m d) = Some (ordinal y m d)"
proof -
  from assms have y: "y \<le> 9999" and m: "m < 100" and d: "d < 100"
    using days_in_month_le [of y m] by (auto simp: valid_date_def)
  show ?thesis
    using assms
    by (simp add: parse_date10_def ymd_string_def pad4_def pad2_def num2_digit_char
        num2_pad2 [OF m] num2_pad2 [OF d] year_value [OF y])
qed

lemma parse_time8_hms_string:
  assumes "valid_time h mi sec"
  shows "parse_time8 (hms_string h mi sec) = Some (3600 * h + 60 * mi + sec)"
proof -
  from assms have h: "h < 100" and mi: "mi < 100" and sec: "sec < 100"
    by (auto simp: valid_time_def)
  show ?thesis
    using assms
    by (simp add: parse_time8_def hms_string_def pad2_def valid_time_def
        num2_pad2 [OF h] num2_pad2 [OF mi] num2_pad2 [OF sec])
qed

lemma parse_offset6_offset_string:
  assumes "oh < 24" and "om < 60"
  shows "parse_offset6 (offset_string neg oh om) \<noteq> None"
proof -
  from assms have oh: "oh < 100" and om: "om < 100"
    by simp_all
  have "parse_offset6 (offset_string neg oh om) =
      (if oh < 24 \<and> om < 60
       then Some ((if neg then - 1 else 1) * int (3600 * oh + 60 * om)) else None)"
    by (simp add: parse_offset6_def offset_string_def pad2_def num2_pad2 [OF oh] num2_pad2 [OF om])
  then show ?thesis
    using assms by simp
qed

lemma fromisoformat_core_iso_string:
  assumes "valid_date y m d" and "valid_time h mi sec" and "valid_offset tz"
  shows "fromisoformat_core (iso_string y m d h mi sec tz) \<noteq> None"
proof -
  have l1: "length (ymd_string y m d) = 10"
    by (simp add: ymd_string_def pad4_def pad2_def)
  have l2: "length (hms_string h mi sec) = 8"
    by (simp add: hms_string_def pad2_def)
  have d: "parse_date10 (take 10 (iso_string y m d h mi sec tz)) = Some (ordinal y m d)"
    using parse_date10_ymd_string [OF assms(1)] by (simp add: iso_string_def l1)
  have t: "take (Suc 0) (drop 10 (iso_string y m d h mi sec tz)) = ''T''"
    by (simp add: iso_string_def l1)
  have hms: "parse_time8 (take 8 (drop 11 (iso_string y m d h mi sec tz))) =
      Some (3600 * h + 60 * mi + sec)"
    using parse_time8_hms_string [OF assms(2)] by (simp add: iso_string_def l1 l2)
  have z: "drop 19 (iso_string y m d h mi sec tz) =
      (case tz of None \<Rightarrow> [] | Some (neg, oh, om) \<Rightarrow> offset_string neg oh om)"
    by (simp add: iso_string_def l1 l2)
  show ?thesis
  proof (cases tz)
    case None
    then have z0: "drop 19 (iso_string y m d h mi sec tz) = []"
      using z by simp
    show ?thesis
      by (simp add: fromisoformat_core_def d t hms z0 Let_def)
  next
    case (Some p)
    obtain neg oh om where p: "p = (neg, oh, om)"
      by (cases p)
    have "oh < 24" and "om < 60"
      using assms(3) Some p by (simp_all add: valid_offset_def)
    then have o: "parse_offset6 (offset_string neg oh om) \<noteq> None"
      by (rule parse_offset6_offset_string)
    have ne: "offset_string neg oh om \<noteq> []"
      by (simp add: offset_string_def)
    have z1: "drop 19 (iso_string y m d h mi sec tz) = offset_string neg oh om"
      using z Some p by simp
    show ?thesis
      using o ne by (auto simp: fromisoformat_core_def d t hms z1 Let_def)
  qed
qed

lemma iso_string_has_T: "CHR ''T'' \<in> set (iso_string y m d h mi sec tz)"
  by (simp add: iso_string_def)

text \<open>
  C2, as stated, fails. \<^verbatim>\<open>2024-6-1\<close> is not of the shape \<^verbatim>\<open>YYYY-MM-DD\<close> with a two-digit
  month and day and contains no \<^verbatim>\<open>T\<close>, yet \<^verbatim>\<open>strptime\<close> parses it: the input is accepted
  and fetched. \<^verbatim>\<open>2024-153T08:00:00\<close> is an ISO-8601 timestamp with an ordinal date (day 153
  of 2024) and contains a \<^verbatim>\<open>T\<close>, yet \<^verbatim>\<open>fromisoformat\<close> reads ten characters of date and
  raises: the input is rejected.
\<close>

theorem one_digit_month_day_accepted:
  "strptime_ymd ''2024-6-1'' = Some (2024, 6, 1) \<and>
   date_input_ok py_core ''2024-6-1'' \<and>
   handle_date_split py_core example_fetch ''2024-6-1'' \<noteq> [ReplyText invalid_date_msg] \<and>
   hd (handle_date_split py_core example_fetch ''2024-6-1'') = Fetch ''2024-6-1'' \<and>
   \<not> date_input_ok py_core ''2024-153T08:00:00'' \<and>
   handle_date_split py_core example_fetch ''2024-153T08:00:00'' = [ReplyText invalid_date_msg]"
proof -
  have p: "strptime_ymd ''2024-6-1'' = Some (2024, 6, 1)"
    by (simp add: date_eval)
  have s: "py_strip ''2024-6-1'' = ''2024-6-1''"
    by (simp add: strip_eval)
  have ok: "date_input_ok py_core ''2024-6-1''"
    by (simp add: date_input_ok_def p)
  have s': "py_strip ''2024-153T08:00:00'' = ''2024-153T08:00:00''"
    by (simp add: strip_eval)
  have no: "\<not> date_input_ok py_core ''2024-153T08:00:00''"
    by (simp add: date_input_ok_def py_core_def iso_eval)
  show ?thesis
    by (simp add: p ok s no s' handle_date_split_def Let_def)
qed

text \<open>
  C2, amended. Every zero-padded \<^verbatim>\<open>YYYY-MM-DD\<close> string of an existing date (year 1 to
  9999) is accepted. Every string \<^verbatim>\<open>YYYY-MM-DDTHH:MM:SS\<close> of an existing date and time,
  with or without an offset \<^verbatim>\<open>+HH:MM\<close> or \<^verbatim>\<open>-HH:MM\<close>, is accepted, the library parsing
  these strings; any other string with a \<^verbatim>\<open>T\<close> is accepted exactly when \<^verbatim>\<open>fromisoformat\<close>
  parses it. A string without \<^verbatim>\<open>T\<close> is accepted exactly when \<^verbatim>\<open>strptime\<close> parses it to
  an existing date (which admits a one-digit month or day). An accepted input is sent
  unchanged (after trimming) as the query parameter; a rejected one gets the invalid-date
  message and nothing is fetched; the three strings of the specification are rejected.
\<close>

theorem date_check:
  "(valid_date y m d \<longrightarrow>
      strptime_ymd (ymd_string y m d) = Some (y, m, d) \<and> date_input_ok lib (ymd_string y m d)) \<and>
   (extends_core lib \<and> valid_date y m d \<and> valid_time h mi sec \<and> valid_offset tz \<longrightarrow>
      CHR ''T'' \<in> set (iso_string y m d h mi sec tz) \<and>
      date_input_ok lib (iso_string y m d h mi sec tz)) \<and>
   (CHR ''T'' \<in> set s \<longrightarrow> date_input_ok lib s = (fromisoformat lib s \<noteq> None)) \<and>
   (CHR ''T'' \<notin> set s \<longrightarrow>
      date_input_ok lib s = (\<exists>y m d. strptime_ymd s = Some (y, m, d) \<and> valid_date y m d)) \<and>
   (date_input_ok lib (py_strip text) \<longrightarrow>
      (\<exists>rest. snd (handle_date lib fetch_wbgt text ud) = Fetch (py_strip text) # rest) \<and>
      (\<exists>rest. handle_date_split lib fetch_wbgt text = Fetch (py_strip text) # rest)) \<and>
   (\<not> date_input_ok lib (py_strip text) \<longrightarrow>
      handle_date lib fetch_wbgt text ud = (ud, [ReplyText invalid_date_msg]) \<and>
      handle_date_split lib fetch_wbgt text = [ReplyText invalid_date_msg]) \<and>
   \<not> date_input_ok lib ''2024-13-40'' \<and> \<not> date_input_ok lib ''not-a-date'' \<and>
   \<not> date_input_ok lib []"
proof -
  have noT: "CHR ''T'' \<notin> set (ymd_string y m d)"
    by (rule ymd_string_no_T)
  have a: "valid_date y m d \<longrightarrow>
      strptime_ymd (ymd_string y m d) = Some (y, m, d) \<and> date_input_ok lib (ymd_string y m d)"
    using noT by (simp add: date_input_ok_def strptime_ymd_string)
  have t: "extends_core lib \<and> valid_date y m d \<and> valid_time h mi sec \<and> valid_offset tz \<longrightarrow>
      CHR ''T'' \<in> set (iso_string y m d h mi sec tz) \<and>
      date_input_ok lib (iso_string y m d h mi sec tz)"
    using fromisoformat_core_iso_string [of y m d h mi sec tz] iso_string_has_T [of y m d h mi sec tz]
    by (auto simp: date_input_ok_def extends_core_def)
  have b: "CHR ''T'' \<in> set s \<longrightarrow> date_input_ok lib s = (fromisoformat lib s \<noteq> None)"
    by (simp add: date_input_ok_def)
  have c: "CHR ''T'' \<notin> set s \<longrightarrow>
      date_input_ok lib s = (\<exists>y m d. strptime_ymd s = Some (y, m, d) \<and> valid_date y m d)"
    using strptime_ymd_valid [of s] by (auto simp: date_input_ok_def)
  have d: "date_input_ok lib (py_strip text) \<longrightarrow>
      (\<exists>rest. snd (handle_date lib fetch_wbgt text ud) = Fetch (py_strip text) # rest) \<and>
      (\<exists>rest. handle_date_split lib fetch_wbgt text = Fetch (py_strip text) # rest)"
    by (simp add: handle_date_def handle_date_split_def Let_def split: sum.splits)
  have e: "\<not> date_input_ok lib (py_strip text) \<longrightarrow>
      handle_date lib fetch_wbgt text ud = (ud, [ReplyText invalid_date_msg]) \<and>
      handle_date_split lib fetch_wbgt text = [ReplyText invalid_date_msg]"
    by (simp add: handle_date_def handle_date_split_def Let_def)
  have f: "\<not> date_input_ok lib ''2024-13-40''" "\<not> date_input_ok lib ''not-a-date''"
    "\<not> date_input_ok lib []"
    by (simp_all add: date_input_ok_def date_eval)
  from a t b c d e f show ?thesis
    by blast
qed

theorem date_check_witness:
  "valid_date 2024 6 1 \<and> ymd_string 2024 6 1 = ''2024-06-01'' \<and>
   date_input_ok py_core ''2024-06-01'' \<and>
   extends_core py_core \<and> valid_time 8 0 0 \<and> valid_offset (Some (False, 8, 0)) \<and>
   iso_string 2024 6 1 8 0 0 (Some (False, 8, 0)) = ''2024-06-01T08:00:00+08:00'' \<and>
   date_input_ok py_core ''2024-06-01T08:00:00+08:00'' \<and>
   hd (handle_date_split py_core example_fetch '' 2024-06-01 '') = Fetch ''2024-06-01'' \<and>
   handle_date py_core example_fetch ''2024-02-30'' \<lparr>station_data = None\<rparr> =
     (\<lparr>station_data = None\<rparr>, [ReplyText invalid_date_msg])"
proof -
  have v: "valid_date 2024 6 1"
    by (simp add: date_eval)
  have y: "ymd_string 2024 6 1 = ''2024-06-01''"
    by (simp add: ymd_string_def pad4_def pad2_def digit_char_eval)
  have x: "extends_core py_core"
    by (simp add: extends_core_def py_core_def)
  have vt: "valid_time 8 0 0"
    by (simp add: valid_time_def)
  have vo: "valid_offset (Some (False, 8, 0))"
    by (simp add: valid_offset_def)
  have i: "iso_string 2024 6 1 8 0 0 (Some (False, 8, 0)) = ''2024-06-01T08:00:00+08:00''"
    unfolding iso_string_def y
    by (simp add: hms_string_def offset_string_def pad2_def digit_char_eval)
  have s1: "py_strip '' 2024-06-01 '' = ''2024-06-01''"
    by (simp add: strip_eval)
  have s2: "py_strip ''2024-02-30'' = ''2024-02-30''"
    by (simp add: strip_eval)
  have n: "\<not> date_input_ok py_core ''2024-02-30''"
    by (simp add: date_input_ok_def date_eval)
  note w1 = date_check [of 2024 6 1 py_core 8 0 0 "Some (False, 8, 0)" "[]" "'' 2024-06-01 ''"
      example_fetch "\<lparr>station_data = None\<rparr>"]
  note w2 = date_check [of 2024 6 1 py_core 8 0 0 "Some (False, 8, 0)" "[]" "''2024-02-30''"
      example_fetch "\<lparr>station_data = None\<rparr>"]
  have ok: "date_input_ok py_core ''2024-06-01''"
    using w1 v y by simp
  have okT: "date_input_ok py_core ''2024-06-01T08:00:00+08:00''"
    using w1 x v vt vo i by simp
  have h1: "hd (handle_date_split py_core example_fetch '' 2024-06-01 '') = Fetch ''2024-06-01''"
    using w1 ok s1 by auto
  have h2: "handle_date py_core example_fetch ''2024-02-30'' \<lparr>station_data = None\<rparr> =
     (\<lparr>station_data = None\<rparr>, [ReplyText invalid_date_msg])"
    using w2 n s2 by simp
  from v y ok x vt vo i okT h1 h2 show ?thesis
    by blast
qed

text \<open>Grouping and sorting under a permutation of the records.\<close>
lemma group_body_of_records:
  "group_wbgt_by_station (body_of_records recs) = add_records [] recs"
  by (simp add: group_wbgt_by_station_def body_of_records_def get_records_def py_get_def py_iter_def)

lemma is_ok_Inr_iff: "is_ok x = (\<exists>y. x = Inr y)"
  by (cases x) (simp_all add: is_ok_def)

lemma is_ok_sorted_readings:
  "is_ok (sorted_readings lib xs) =
     (list_all (\<lambda>r. is_ok (ts_key lib r)) xs \<and> comparable (map (reading_dt lib) xs))"
  by (simp add: is_ok_Inr_iff sorted_readings_Inr_iff)

lemma sorted_readings_perm:
  assumes "mset xs' = mset xs"
  shows "is_ok (sorted_readings lib xs') = is_ok (sorted_readings lib xs)"
proof -
  have "mset (map (reading_dt lib) xs') = mset (map (reading_dt lib) xs)"
    using assms by simp
  then have "comparable (map (reading_dt lib) xs') = comparable (map (reading_dt lib) xs)"
    by (rule comparable_perm)
  moreover have "list_all (\<lambda>r. is_ok (ts_key lib r)) xs' = list_all (\<lambda>r. is_ok (ts_key lib r)) xs"
    using assms by (rule list_all_perm)
  ultimately show ?thesis
    by (simp add: is_ok_sorted_readings)
qed

lemma sort_key_perm_inj:
  assumes "mset xs' = mset xs" and "inj_on f (set xs)"
  shows "sort_key f xs' = sort_key f xs"
proof (rule sort_key_inj_key_eq)
  show "mset xs' = mset (sort_key f xs)"
    using assms(1) by simp
  have "set xs' = set xs"
    using assms(1) by (rule mset_eq_setD)
  then show "inj_on f (set xs')"
    using assms(2) by simp
  show "sorted (map f (sort_key f xs))"
    by (rule sorted_sort_key)
qed

lemma sorted_readings_perm_out:
  assumes "mset xs' = mset xs" and "sorted_readings lib xs = Inr out"
  shows "\<exists>out'. sorted_readings lib xs' = Inr out' \<and> mset out' = mset out \<and>
           sorted (map (reading_instant lib) out) \<and> sorted (map (reading_instant lib) out') \<and>
           (inj_on (reading_instant lib) (set xs) \<longrightarrow> out' = out)"
proof -
  have out: "out = sort_key (reading_instant lib) xs"
    using assms(2) by (simp add: sorted_readings_Inr_iff)
  have "is_ok (sorted_readings lib xs)"
    using assms(2) by (simp add: is_ok_def)
  then have "is_ok (sorted_readings lib xs')"
    using sorted_readings_perm [OF assms(1), of lib] by simp
  then obtain o' where "sorted_readings lib xs' = Inr o'"
    unfolding is_ok_Inr_iff by blast
  then have out': "sorted_readings lib xs' = Inr (sort_key (reading_instant lib) xs')"
    by (simp add: sorted_readings_Inr_iff)
  have "inj_on (reading_instant lib) (set xs) \<longrightarrow>
      sort_key (reading_instant lib) xs' = sort_key (reading_instant lib) xs"
    using sort_key_perm_inj [OF assms(1)] by blast
  then show ?thesis
    using assms(1) by (simp add: out out')
qed

text \<open>
  C3, as stated, fails: two readings of one station with the same timestamp keep the
  order in which the records came, so swapping the two records swaps them in the result.
\<close>
theorem equal_timestamps_keep_input_order:
  "mset [example_record ''2024-06-01T08:00:00Z'' ''Changi'' 28,
         example_record ''2024-06-01T08:00:00Z'' ''Changi'' 30] =
   mset [example_record ''2024-06-01T08:00:00Z'' ''Changi'' 30,
         example_record ''2024-06-01T08:00:00Z'' ''Changi'' 28] \<and>
   group_wbgt_by_station (body_of_records
        [example_record ''2024-06-01T08:00:00Z'' ''Changi'' 28,
         example_record ''2024-06-01T08:00:00Z'' ''Changi'' 30]) =
     Inr [(JStr ''Changi'', [(JStr ''2024-06-01T08:00:00Z'', JInt 28, JStr ''Moderate''),
                            (JStr ''2024-06-01T08:00:00Z'', JInt 30, JStr ''Moderate'')])] \<and>
   group_wbgt_by_station (body_of_records
        [example_record ''2024-06-01T08:00:00Z'' ''Changi'' 30,
         example_record ''2024-06-01T08:00:00Z'' ''Changi'' 28]) =
     Inr [(JStr ''Changi'', [(JStr ''2024-06-01T08:00:00Z'', JInt 30, JStr ''Moderate''),
                            (JStr ''2024-06-01T08:00:00Z'', JInt 28, JStr ''Moderate'')])] \<and>
   sorted_readings py_core [(JStr ''2024-06-01T08:00:00Z'', JInt 28, JStr ''Moderate''),
                           (JStr ''2024-06-01T08:00:00Z'', JInt 30, JStr ''Moderate'')] =
     Inr [(JStr ''2024-06-01T08:00:00Z'', JInt 28, JStr ''Moderate''),
          (JStr ''2024-06-01T08:00:00Z'', JInt 30, JStr ''Moderate'')] \<and>
   sorted_readings py_core [(JStr ''2024-06-01T08:00:00Z'', JInt 30, JStr ''Moderate''),
                           (JStr ''2024-06-01T08:00:00Z'', JInt 28, JStr ''Moderate'')] =
     Inr [(JStr ''2024-06-01T08:00:00Z'', JInt 30, JStr ''Moderate''),
          (JStr ''2024-06-01T08:00:00Z'', JInt 28, JStr ''Moderate'')]"
  by (simp add: example_eval group_eval sorted_readings_def ts_key_def py_core_def iso_eval
      comparable_def is_naive_def instant_def)

text \<open>
  C3, amended. When grouping succeeds on a record list, it succeeds on every permutation
  of it, with the same keys and, for each key, the same readings as a multiset; the sort of
  a group succeeds for both or for neither; both sorted sequences are ascending in the
  timestamp and have the same readings, and they are the same sequence when no two
  different readings of the station have the same parsed timestamp.
\<close>
theorem grouping_permutation:
  assumes "mset recs' = mset recs"
    and "group_wbgt_by_station (body_of_records recs) = Inr sd"
  shows "\<exists>sd'. group_wbgt_by_station (body_of_records recs') = Inr sd' \<and>
     (\<forall>k. dict_mem sd' k = dict_mem sd k \<and>
          mset (dict_get sd' k) = mset (dict_get sd k) \<and>
          is_ok (sorted_readings lib (dict_get sd' k)) = is_ok (sorted_readings lib (dict_get sd k)) \<and>
          (\<forall>out. sorted_readings lib (dict_get sd k) = Inr out \<longrightarrow>
             (\<exists>out'. sorted_readings lib (dict_get sd' k) = Inr out' \<and> mset out' = mset out \<and>
                sorted (map (reading_instant lib) out) \<and> sorted (map (reading_instant lib) out') \<and>
                (inj_on (reading_instant lib) (set (dict_get sd k)) \<longrightarrow> out' = out))))"
proof -
  let ?ps = "concat (map entries_of recs)" and ?ps' = "concat (map entries_of recs')"
  from assms(2) have ok: "list_all (\<lambda>r. is_ok (record_entries r)) recs"
    and sd: "sd = foldl put_entry [] ?ps"
    by (simp_all add: group_body_of_records add_records_Inr_iff)
  have "list_all (\<lambda>r. is_ok (record_entries r)) recs'"
    using ok list_all_perm [OF assms(1)] by simp
  then have sd': "group_wbgt_by_station (body_of_records recs') = Inr (foldl put_entry [] ?ps')"
    by (simp add: group_body_of_records add_records_ok)
  have ps: "mset ?ps' = mset ?ps"
    using assms(1) by (rule mset_entries_perm)
  then have set_ps: "set ?ps' = set ?ps"
    by (rule mset_eq_setD)
  have "set recs' = set recs"
    using assms(1) by (rule mset_eq_setD)
  then have mem: "dict_mem (foldl put_entry [] ?ps') k = dict_mem sd k" for k
    by (simp add: sd dict_mem_foldl)
  have get: "mset (dict_get (foldl put_entry [] ?ps') k) = mset (dict_get sd k)" for k
    using mset_readings_for [OF ps] by (simp add: sd dict_get_foldl)
  show ?thesis
    using sd' mem get sorted_readings_perm [OF get] sorted_readings_perm_out [OF get]
    by blast
qed

theorem grouping_permutation_witness:
  "\<exists>sd'. group_wbgt_by_station (body_of_records
            [example_record ''2024-06-01T07:00:00Z'' ''Changi'' 28,
             example_record ''2024-06-01T08:00:00Z'' ''Changi'' 30]) = Inr sd' \<and>
     sorted_readings py_core (dict_get sd' (JStr ''Changi'')) =
       Inr [(JStr ''2024-06-01T07:00:00Z'', JInt 28, JStr ''Moderate''),
            (JStr ''2024-06-01T08:00:00Z'', JInt 30, JStr ''Moderate'')] \<and>
     sorted_readings py_core
        [(JStr ''2024-06-01T08:00:00Z'', JInt 30, JStr ''Moderate''),
         (JStr ''2024-06-01T07:00:00Z'', JInt 28, JStr ''Moderate'')] =
       Inr [(JStr ''2024-06-01T07:00:00Z'', JInt 28, JStr ''Moderate''),
            (JStr ''2024-06-01T08:00:00Z'', JInt 30, JStr ''Moderate'')]"
proof -
  let ?a = "(JStr ''2024-06-01T08:00:00Z'', JInt 30, JStr ''Moderate'')"
  let ?b = "(JStr ''2024-06-01T07:00:00Z'', JInt 28, JStr ''Moderate'')"
  let ?sd = "[(JStr ''Changi'', [?a, ?b])]"
  have h1: "mset [example_record ''2024-06-01T07:00:00Z'' ''Changi'' 28,
                  example_record ''2024-06-01T08:00:00Z'' ''Changi'' 30] =
            mset [example_record ''2024-06-01T08:00:00Z'' ''Changi'' 30,
                  example_record ''2024-06-01T07:00:00Z'' ''Changi'' 28]"
    by simp
  have h2: "group_wbgt_by_station (body_of_records
            [example_record ''2024-06-01T08:00:00Z'' ''Changi'' 30,
             example_record ''2024-06-01T07:00:00Z'' ''Changi'' 28]) = Inr ?sd"
    by (simp add: example_eval group_eval)
  have g: "dict_get ?sd (JStr ''Changi'') = [?a, ?b]"
    by (simp add: py_eq_def is_num_def)
  have s: "sorted_readings py_core [?a, ?b] = Inr [?b, ?a]"
    by (simp add: sorted_readings_def ts_key_def py_core_def iso_eval comparable_def
        is_naive_def instant_def)
  have i: "inj_on (reading_instant py_core) (set [?a, ?b])"
    by (simp add: reading_instant_def ts_key_def py_core_def iso_eval instant_def)
  from grouping_permutation [OF h1 h2, of py_core]
  obtain sd' where sd': "group_wbgt_by_station (body_of_records
            [example_record ''2024-06-01T07:00:00Z'' ''Changi'' 28,
             example_record ''2024-06-01T08:00:00Z'' ''Changi'' 30]) = Inr sd'"
    and out: "\<And>out. sorted_readings py_core (dict_get ?sd (JStr ''Changi'')) = Inr out \<Longrightarrow>
       \<exists>out'. sorted_readings py_core (dict_get sd' (JStr ''Changi'')) = Inr out' \<and>
         (inj_on (reading_instant py_core) (set (dict_get ?sd (JStr ''Changi''))) \<longrightarrow> out' = out)"
    by blast
  from out [of "[?b, ?a]"] s i
  have "sorted_readings py_core (dict_get sd' (JStr ''Changi'')) = Inr [?b, ?a]"
    unfolding g by blast
  with sd' s show ?thesis
    by blast
qed

end
